theory Spec2Isabelle
  imports Complex_Main
begin

section \<open>JavaScript values\<close>

text \<open>
  Strings are lists of characters, one \<^typ>\<open>char\<close> for one UTF-16 code unit below 256;
  the letters are the ASCII letters, and case mapping leaves every other character as it is.
  A JavaScript number is an IEEE double: the special values are constructors of their own,
  and a finite number is an exact real. Reading a number from text gives infinity above
  the range of doubles and zero below it; the rounding of the mantissa and the sign of
  zero are not modelled.
\<close>

datatype jsnum = Fin real | PInf | NInf | NaN

fun isFinite :: "jsnum \<Rightarrow> bool" where
  "isFinite (Fin x) = True"
| "isFinite _ = False"

text \<open>\<^verbatim>\<open>Math.round\<close> rounds half up: it is \<open>floor (x + 0.5)\<close>.\<close>

fun Math_round :: "jsnum \<Rightarrow> jsnum" where
  "Math_round (Fin x) = Fin (of_int \<lfloor>x + 1 / 2\<rfloor>)"
| "Math_round v = v"

fun js_mul :: "jsnum \<Rightarrow> jsnum \<Rightarrow> jsnum" where
  "js_mul (Fin x) (Fin y) = Fin (x * y)"
| "js_mul NaN _ = NaN"
| "js_mul _ NaN = NaN"
| "js_mul (Fin x) PInf = (if x = 0 then NaN else if 0 < x then PInf else NInf)"
| "js_mul (Fin x) NInf = (if x = 0 then NaN else if 0 < x then NInf else PInf)"
| "js_mul PInf (Fin y) = (if y = 0 then NaN else if 0 < y then PInf else NInf)"
| "js_mul NInf (Fin y) = (if y = 0 then NaN else if 0 < y then NInf else PInf)"
| "js_mul PInf PInf = PInf"
| "js_mul PInf NInf = NInf"
| "js_mul NInf PInf = NInf"
| "js_mul NInf NInf = PInf"

fun js_div :: "jsnum \<Rightarrow> jsnum \<Rightarrow> jsnum" where
  "js_div (Fin x) (Fin y) =
     (if y = 0 then (if x = 0 then NaN else if 0 < x then PInf else NInf) else Fin (x / y))"
| "js_div NaN _ = NaN"
| "js_div _ NaN = NaN"
| "js_div (Fin x) PInf = Fin 0"
| "js_div (Fin x) NInf = Fin 0"
| "js_div PInf (Fin y) = (if 0 \<le> y then PInf else NInf)"
| "js_div NInf (Fin y) = (if 0 \<le> y then NInf else PInf)"
| "js_div _ _ = NaN"

fun js_add :: "jsnum \<Rightarrow> jsnum \<Rightarrow> jsnum" where
  "js_add (Fin x) (Fin y) = Fin (x + y)"
| "js_add NaN _ = NaN"
| "js_add _ NaN = NaN"
| "js_add PInf NInf = NaN"
| "js_add NInf PInf = NaN"
| "js_add PInf _ = PInf"
| "js_add _ PInf = PInf"
| "js_add NInf _ = NInf"
| "js_add _ NInf = NInf"

fun js_neg :: "jsnum \<Rightarrow> jsnum" where
  "js_neg (Fin x) = Fin (- x)"
| "js_neg PInf = NInf"
| "js_neg NInf = PInf"
| "js_neg NaN = NaN"

fun Math_abs :: "jsnum \<Rightarrow> jsnum" where
  "Math_abs (Fin x) = Fin \<bar>x\<bar>"
| "Math_abs PInf = PInf"
| "Math_abs NInf = PInf"
| "Math_abs NaN = NaN"

text \<open>\<open>a < b\<close> and \<open>a > b\<close> on numbers: false as soon as one side is NaN.\<close>

fun js_lt :: "jsnum \<Rightarrow> jsnum \<Rightarrow> bool" where
  "js_lt (Fin x) (Fin y) = (x < y)"
| "js_lt NaN _ = False"
| "js_lt _ NaN = False"
| "js_lt NInf NInf = False"
| "js_lt NInf _ = True"
| "js_lt PInf _ = False"
| "js_lt (Fin x) PInf = True"
| "js_lt (Fin x) NInf = False"

text \<open>A number is falsy when it is zero or NaN.\<close>

fun truthy :: "jsnum \<Rightarrow> bool" where
  "truthy (Fin x) = (x \<noteq> 0)"
| "truthy NaN = False"
| "truthy _ = True"

definition js_or :: "jsnum \<Rightarrow> jsnum \<Rightarrow> jsnum" where
  "js_or a b = (if truthy a then a else b)"

text \<open>
  The value of a non-negative literal as a double: a value that rounds beyond the largest
  double (from \<open>2^1024 - 2^970\<close> on) is \<open>Infinity\<close>, and one that rounds below the smallest
  (up to \<open>2^-1075\<close>) is 0.
\<close>

definition literal_value :: "real \<Rightarrow> jsnum" where
  "literal_value v =
     (if 2 ^ 1024 - 2 ^ 970 \<le> v then PInf else if v \<le> 1 / 2 ^ 1075 then Fin 0 else Fin v)"

subsection \<open>String primitives\<close>

text \<open>
  White space for \<open>trim\<close>, \<open>\s\<close> and \<open>Number\<close>: tab, line feed, vertical tab, form feed,
  carriage return, space and the no-break space U+00A0.
\<close>

definition is_space :: "char \<Rightarrow> bool" where
  "is_space c = (c \<in> set [CHR '' '', CHR 0x09, CHR 0x0A, CHR 0x0B, CHR 0x0C, CHR 0x0D, CHR 0xA0])"

definition code :: "char \<Rightarrow> nat" where
  "code c = of_char c"

definition lower_letters :: string where
  "lower_letters = ''abcdefghijklmnopqrstuvwxyz''"

definition upper_letters :: string where
  "upper_letters = ''ABCDEFGHIJKLMNOPQRSTUVWXYZ''"

definition decimal_digits :: string where
  "decimal_digits = ''0123456789''"

definition is_digit :: "char \<Rightarrow> bool" where
  "is_digit c = (c \<in> set decimal_digits)"

definition is_upper :: "char \<Rightarrow> bool" where
  "is_upper c = (c \<in> set upper_letters)"

definition is_lower :: "char \<Rightarrow> bool" where
  "is_lower c = (c \<in> set lower_letters)"

definition is_alnum :: "char \<Rightarrow> bool" where
  "is_alnum c = (is_upper c \<or> is_lower c \<or> is_digit c)"

definition is_word :: "char \<Rightarrow> bool" where
  "is_word c = (is_digit c \<or> is_upper c \<or> is_lower c \<or> c = CHR ''_'')"

definition upper_char :: "char \<Rightarrow> char" where
  "upper_char c = (case map_of (zip lower_letters upper_letters) c of Some u \<Rightarrow> u | None \<Rightarrow> c)"

definition lower_char :: "char \<Rightarrow> char" where
  "lower_char c = (case map_of (zip upper_letters lower_letters) c of Some l \<Rightarrow> l | None \<Rightarrow> c)"

definition toUpperCase :: "string \<Rightarrow> string" where
  "toUpperCase s = map upper_char s"

definition toLowerCase :: "string \<Rightarrow> string" where
  "toLowerCase s = map lower_char s"

definition trim :: "string \<Rightarrow> string" where
  "trim s = rev (dropWhile is_space (rev (dropWhile is_space s)))"

text \<open>\<open>s.padStart(n, c)\<close> with a one-character filler.\<close>

definition padStart :: "nat \<Rightarrow> char \<Rightarrow> string \<Rightarrow> string" where
  "padStart n c s = replicate (n - length s) c @ s"

text \<open>\<open>s.slice(i, j)\<close> for indices \<open>0 \<le> i \<le> j\<close>.\<close>

definition slice :: "nat \<Rightarrow> nat \<Rightarrow> string \<Rightarrow> string" where
  "slice i j s = take (j - i) (drop i s)"

fun startsWith :: "string \<Rightarrow> string \<Rightarrow> bool" where
  "startsWith s [] = True"
| "startsWith [] (p # ps) = False"
| "startsWith (c # cs) (p # ps) = (c = p \<and> startsWith cs ps)"

fun str_includes :: "string \<Rightarrow> string \<Rightarrow> bool" where
  "str_includes [] p = (p = [])"
| "str_includes (c # cs) p = (startsWith (c # cs) p \<or> str_includes cs p)"

subsection \<open>Decimal digits\<close>

text \<open>The decimal digit \<open>d < 10\<close> as a character.\<close>

definition digit_char :: "nat \<Rightarrow> char" where
  "digit_char d = decimal_digits ! d"

definition digit_val :: "char \<Rightarrow> nat" where
  "digit_val c = code c - code CHR ''0''"

fun nat_toString :: "nat \<Rightarrow> string" where
  "nat_toString n =
     (if n < 10 then [digit_char n] else nat_toString (n div 10) @ [digit_char (n mod 10)])"

declare nat_toString.simps [simp del]

text \<open>The value of a string of decimal digits, as \<open>Number\<close> reads it.\<close>

definition digits_value :: "string \<Rightarrow> nat" where
  "digits_value s = foldl (\<lambda>a c. 10 * a + digit_val c) 0 s"

text \<open>
  \<open>n.toString()\<close> of an integer-valued number. From \<open>10^21\<close> on JavaScript switches to
  exponent notation: one digit, the remaining significant digits after a point, then
  \<open>e+\<close> and the exponent.
\<close>

definition strip_zeros :: "string \<Rightarrow> string" where
  "strip_zeros s = rev (dropWhile (\<lambda>c. c = CHR ''0'') (rev s))"

definition big_toString :: "nat \<Rightarrow> string" where
  "big_toString n =
     (let ds = nat_toString n; frac = strip_zeros (tl ds)
      in [hd ds] @ (if frac = [] then [] else ''.'' @ frac) @ ''e+'' @ nat_toString (length ds - 1))"

definition int_toString :: "int \<Rightarrow> string" where
  "int_toString i =
     (let n = nat \<bar>i\<bar>; body = (if n < 10 ^ 21 then nat_toString n else big_toString n)
      in if i < 0 then ''-'' @ body else body)"

fun integer_toString :: "jsnum \<Rightarrow> string" where
  "integer_toString (Fin x) = int_toString \<lfloor>x\<rfloor>"
| "integer_toString PInf = ''Infinity''"
| "integer_toString NInf = ''-Infinity''"
| "integer_toString NaN = ''NaN''"

section \<open>Regular expressions\<close>

text \<open>
  The regular expressions of the source are terms of \<open>re\<close>, run by a backtracking matcher
  with JavaScript's priorities: a quantifier is greedy, an alternative is tried left to
  right, and the first way to match the whole pattern wins. Quantifiers in the source
  stand on character classes only, apart from optional groups. No capturing group of the
  source is nested in another or sits in an optional part, so the captures, collected
  in the order the groups close, are numbered as JavaScript numbers them.
\<close>

datatype re =
    Rep "char \<Rightarrow> bool" nat "nat option"
  | Lit string
  | Seq "re list"
  | Alt "re list"
  | Opt re
  | Grp re
  | Bnd
  | Bol
  | Eol

text \<open>
  A matcher state: the character before the current position (none at the start of the
  input), the input that is left, and the captures so far.
\<close>

type_synonym mstate = "char option \<times> string \<times> string list"

definition advance :: "nat \<Rightarrow> mstate \<Rightarrow> mstate" where
  "advance k st =
     (case st of (prev, rest, caps) \<Rightarrow>
        (if k = 0 then prev else Some (rest ! (k - 1)), drop k rest, caps))"

definition word_at :: "char option \<Rightarrow> bool" where
  "word_at c = (case c of None \<Rightarrow> False | Some x \<Rightarrow> is_word x)"

definition next_char :: "string \<Rightarrow> char option" where
  "next_char s = (case s of [] \<Rightarrow> None | c # _ \<Rightarrow> Some c)"

text \<open>All the ways a pattern matches at a state, the preferred one first.\<close>

fun rmatch :: "re \<Rightarrow> mstate \<Rightarrow> mstate list" and
    rmatch_seq :: "re list \<Rightarrow> mstate \<Rightarrow> mstate list" and
    rmatch_alt :: "re list \<Rightarrow> mstate \<Rightarrow> mstate list" where
  "rmatch (Rep p lo hi) st =
     (let avail = length (takeWhile p (fst (snd st)));
          top = (case hi of None \<Rightarrow> avail | Some h \<Rightarrow> min h avail)
      in map (\<lambda>k. advance k st) (rev [lo ..< Suc top]))"
| "rmatch (Lit s) st =
     (if startsWith (fst (snd st)) s \<and> s \<noteq> [] then [advance (length s) st]
      else if s = [] then [st] else [])"
| "rmatch (Seq rs) st = rmatch_seq rs st"
| "rmatch (Alt rs) st = rmatch_alt rs st"
| "rmatch (Opt r) st = rmatch r st @ [st]"
| "rmatch (Grp r) st =
     map (\<lambda>st'. (fst st', fst (snd st'),
                 snd (snd st') @ [take (length (fst (snd st)) - length (fst (snd st'))) (fst (snd st))]))
         (rmatch r st)"
| "rmatch Bnd st = (if word_at (fst st) \<noteq> word_at (next_char (fst (snd st))) then [st] else [])"
| "rmatch Bol st = (if fst st = None then [st] else [])"
| "rmatch Eol st = (if fst (snd st) = [] then [st] else [])"
| "rmatch_seq [] st = [st]"
| "rmatch_seq (r # rs) st = concat (map (rmatch_seq rs) (rmatch r st))"
| "rmatch_alt [] st = []"
| "rmatch_alt (r # rs) st = rmatch r st @ rmatch_alt rs st"

text \<open>
  \<open>s.match(r)\<close> without the global flag: the leftmost start position at which the
  pattern matches, and there the preferred match; the result is the list of captures.
\<close>

fun re_search :: "re \<Rightarrow> char option \<Rightarrow> string \<Rightarrow> string list option" where
  "re_search r prev s =
     (case rmatch r (prev, s, []) of
        st # _ \<Rightarrow> Some (snd (snd st))
      | [] \<Rightarrow> (case s of [] \<Rightarrow> None | c # cs \<Rightarrow> re_search r (Some c) cs))"

definition re_match :: "re \<Rightarrow> string \<Rightarrow> string list option" where
  "re_match r s = re_search r None s"

definition re_test :: "re \<Rightarrow> string \<Rightarrow> bool" where
  "re_test r s = (re_match r s \<noteq> None)"

text \<open>\<open>s.replace(/[class]+/g, t)\<close>: every maximal run of the class becomes \<open>t\<close>.\<close>

fun replace_runs :: "(char \<Rightarrow> bool) \<Rightarrow> string \<Rightarrow> string \<Rightarrow> string" where
  "replace_runs p t [] = []"
| "replace_runs p t [c] = (if p c then t else [c])"
| "replace_runs p t (c # d # s) =
     (if p c then (if p d then replace_runs p t (d # s) else t @ replace_runs p t (d # s))
      else c # replace_runs p t (d # s))"

section \<open>Contract symbol codec\<close>

record osi =
  osi_underlying :: string
  osi_expiry :: string
  osi_option_type :: string
  osi_strike :: jsnum

definition is_upper_alnum :: "char \<Rightarrow> bool" where
  "is_upper_alnum c = (is_upper c \<or> is_digit c)"

text \<open>\<^verbatim>\<open>/^([A-Z0-9]{1,6})(\d{6})([CP])(\d{8})$/\<close>\<close>

definition osi_re :: re where
  "osi_re = Seq [Bol, Grp (Rep is_upper_alnum 1 (Some 6)), Grp (Rep is_digit 6 (Some 6)),
                 Grp (Rep (\<lambda>c. c = CHR ''C'' \<or> c = CHR ''P'') 1 (Some 1)),
                 Grp (Rep is_digit 8 (Some 8)), Eol]"

definition parseOsiSymbol :: "string \<Rightarrow> osi option" where
  "parseOsiSymbol symbol =
     (let s = toUpperCase (trim symbol) in
      case re_match osi_re s of
        Some [g1, g2, g3, g4] \<Rightarrow>
          let y = ''20'' @ slice 0 2 g2;
              m = slice 2 4 g2;
              d = slice 4 6 g2
          in Some \<lparr>osi_underlying = g1,
                   osi_expiry = y @ ''-'' @ m @ ''-'' @ d,
                   osi_option_type = (if g3 = ''C'' then ''CALL'' else ''PUT''),
                   osi_strike = js_div (Fin (real (digits_value g4))) (Fin 1000)\<rparr>
      | _ \<Rightarrow> None)"

text \<open>The empty string is the failure value of \<open>buildOsiSymbol\<close>.\<close>

definition buildOsiSymbol :: "string \<Rightarrow> string \<Rightarrow> string \<Rightarrow> jsnum \<Rightarrow> string" where
  "buildOsiSymbol underlying expiry right strike =
     (let u = toUpperCase (trim underlying);
          exp = trim expiry
      in if u = [] \<or> exp = [] \<or> right = [] \<or> \<not> isFinite strike then []
         else
           let ymd = drop 2 (filter (\<lambda>c. c \<noteq> CHR ''-'') exp) in
           if length ymd \<noteq> 6 then []
           else
             let strikeInt = padStart 8 CHR ''0''
                   (integer_toString (Math_round (js_mul strike (Fin 1000))));
                 r = (if toUpperCase right = ''P'' then ''P'' else ''C'')
             in u @ ymd @ r @ strikeInt)"

text \<open>
  \<open>normalizeExpiryInput\<close>: an ISO date is kept, \<open>MM-DD-YYYY\<close>, \<open>MM-DD-YY\<close>, \<open>MM/DD/YYYY\<close>
  and \<open>MM/DD/YY\<close> are rewritten to ISO, anything else is returned as it is.
\<close>

definition digits :: "nat \<Rightarrow> re" where
  "digits n = Rep is_digit n (Some n)"

definition chr :: "char \<Rightarrow> re" where
  "chr c = Rep (\<lambda>x. x = c) 1 (Some 1)"

definition iso_re :: re where
  "iso_re = Seq [Bol, digits 4, chr CHR ''-'', digits 2, chr CHR ''-'', digits 2, Eol]"

definition mdy_re :: "char \<Rightarrow> nat \<Rightarrow> re" where
  "mdy_re sep n = Seq [Bol, Grp (digits 2), chr sep, Grp (digits 2), chr sep, Grp (digits n), Eol]"

definition normalizeExpiryInput :: "string \<Rightarrow> string" where
  "normalizeExpiryInput v =
     (let raw = trim v in
      if raw = [] then []
      else if re_test iso_re raw then raw
      else case re_match (mdy_re CHR ''-'' 4) raw of
        Some [g1, g2, g3] \<Rightarrow> g3 @ ''-'' @ g1 @ ''-'' @ g2
      | _ \<Rightarrow> (case re_match (mdy_re CHR ''-'' 2) raw of
        Some [g1, g2, g3] \<Rightarrow> ''20'' @ g3 @ ''-'' @ g1 @ ''-'' @ g2
      | _ \<Rightarrow> (case re_match (mdy_re CHR ''/'' 4) raw of
        Some [g1, g2, g3] \<Rightarrow> g3 @ ''-'' @ g1 @ ''-'' @ g2
      | _ \<Rightarrow> (case re_match (mdy_re CHR ''/'' 2) raw of
        Some [g1, g2, g3] \<Rightarrow> ''20'' @ g3 @ ''-'' @ g1 @ ''-'' @ g2
      | _ \<Rightarrow> raw))))"

section \<open>Option descriptions\<close>

text \<open>
  The four patterns of \<open>parseOptionDescription\<close>. Their common parts:
  \<^verbatim>\<open>(?:\d+\s+)?\<close>, \<^verbatim>\<open>\d{1,2}[\/-]\d{1,2}[\/-]\d{2,4}\<close>, \<^verbatim>\<open>\d+(?:\.\d+)?\<close> and
  \<^verbatim>\<open>(CALL|PUT|[CP])\b\<close>.
\<close>

definition some_digits :: re where
  "some_digits = Rep is_digit 1 None"

definition spaces :: re where
  "spaces = Rep is_space 1 None"

definition opt_qty :: re where
  "opt_qty = Opt (Seq [some_digits, spaces])"

definition slash_or_dash :: re where
  "slash_or_dash = Rep (\<lambda>c. c = CHR ''/'' \<or> c = CHR ''-'') 1 (Some 1)"

definition numeric_date :: re where
  "numeric_date = Seq [Rep is_digit 1 (Some 2), slash_or_dash, Rep is_digit 1 (Some 2),
                       slash_or_dash, Rep is_digit 2 (Some 4)]"

definition strike_re :: re where
  "strike_re = Seq [some_digits, Opt (Seq [chr CHR ''.'', some_digits])]"

definition right_re :: re where
  "right_re = Alt [Lit ''CALL'', Lit ''PUT'', Rep (\<lambda>c. c = CHR ''C'' \<or> c = CHR ''P'') 1 (Some 1)]"

definition underlying_re :: re where
  "underlying_re = Rep is_upper_alnum 1 (Some 6)"

definition numeric_tail :: "re list" where
  "numeric_tail = [Grp numeric_date, spaces, Grp strike_re, Rep is_space 0 None, Grp right_re, Bnd]"

definition month_tail :: "re list" where
  "month_tail = [Grp (Rep is_digit 1 (Some 2)), spaces, Grp (Rep is_upper 3 (Some 3)), spaces,
                 Grp (Rep is_digit 2 (Some 4)), spaces, Grp strike_re, Rep is_space 0 None,
                 Grp right_re, Bnd]"

definition numericMatch_re :: re where
  "numericMatch_re = Seq ([Bol, opt_qty, Grp underlying_re, spaces, opt_qty] @ numeric_tail)"

definition monthMatch_re :: re where
  "monthMatch_re = Seq ([Bol, opt_qty, Grp underlying_re, spaces, opt_qty] @ month_tail)"

definition numericNoUnderlying_re :: re where
  "numericNoUnderlying_re = Seq ([Bol, opt_qty] @ numeric_tail)"

definition monthNoUnderlying_re :: re where
  "monthNoUnderlying_re = Seq ([Bol, opt_qty] @ month_tail)"

definition monthMap :: "string \<Rightarrow> string option" where
  "monthMap = map_of
     [(''JAN'', ''01''), (''FEB'', ''02''), (''MAR'', ''03''), (''APR'', ''04''),
      (''MAY'', ''05''), (''JUN'', ''06''), (''JUL'', ''07''), (''AUG'', ''08''),
      (''SEP'', ''09''), (''OCT'', ''10''), (''NOV'', ''11''), (''DEC'', ''12'')]"

text \<open>\<open>Number(s)\<close> for a string \<open>s\<close> that matched \<^verbatim>\<open>\d+(?:\.\d+)?\<close>.\<close>

definition decimal_Number :: "string \<Rightarrow> jsnum" where
  "decimal_Number s =
     (let ip = takeWhile is_digit s; fp = drop (Suc (length ip)) s
      in literal_value (real (digits_value ip) + real (digits_value fp) / 10 ^ length fp))"

record option_desc =
  od_symbol :: string
  od_underlying :: string
  od_expiry :: string
  od_strike :: jsnum
  od_option_type :: string

definition right_letter :: "string \<Rightarrow> string" where
  "right_letter r = (if startsWith r ''P'' then ''P'' else ''C'')"

definition month_expiry :: "string \<Rightarrow> string \<Rightarrow> string \<Rightarrow> string" where
  "month_expiry dayRaw monthKey yearRaw =
     (let day = padStart 2 CHR ''0'' dayRaw;
          year = (if length yearRaw = 2 then ''20'' @ yearRaw else yearRaw)
      in case monthMap monthKey of
           Some month \<Rightarrow> year @ ''-'' @ month @ ''-'' @ day
         | None \<Rightarrow> [])"

text \<open>The last step of \<open>parseOptionDescription\<close>, common to its four branches.\<close>

definition finish_desc :: "string \<Rightarrow> string \<Rightarrow> jsnum \<Rightarrow> string \<Rightarrow> option_desc option" where
  "finish_desc underlying expiry strike right =
     (let symbol = buildOsiSymbol underlying expiry right strike in
      if symbol = [] then None
      else Some \<lparr>od_symbol = symbol, od_underlying = underlying, od_expiry = expiry,
                  od_strike = strike,
                  od_option_type = (if right = ''P'' then ''PUT'' else ''CALL'')\<rparr>)"

text \<open>An absent or empty \<open>fallbackUnderlying\<close> is falsy.\<close>

definition given :: "string option \<Rightarrow> bool" where
  "given fb = (case fb of None \<Rightarrow> False | Some u \<Rightarrow> u \<noteq> [])"

definition parseOptionDescription :: "string \<Rightarrow> string option \<Rightarrow> option_desc option" where
  "parseOptionDescription raw fallbackUnderlying =
     (let text = toUpperCase (trim raw) in
      if text = [] then None
      else
        let cleaned = replace_runs is_space '' '' text;
            numericMatch = re_match numericMatch_re cleaned;
            monthMatch = re_match monthMatch_re cleaned;
            numericNoUnderlying = re_match numericNoUnderlying_re cleaned;
            monthNoUnderlying = re_match monthNoUnderlying_re cleaned
        in case numericMatch of
             Some m \<Rightarrow>
               finish_desc (m ! 0) (normalizeExpiryInput (m ! 1)) (decimal_Number (m ! 2))
                 (right_letter (m ! 3))
           | None \<Rightarrow>
          (case monthMatch of
             Some m \<Rightarrow>
               finish_desc (m ! 0) (month_expiry (m ! 1) (m ! 2) (m ! 3)) (decimal_Number (m ! 4))
                 (right_letter (m ! 5))
           | None \<Rightarrow>
          (if numericNoUnderlying \<noteq> None \<and> given fallbackUnderlying then
             let m = the numericNoUnderlying in
             finish_desc (toUpperCase (the fallbackUnderlying)) (normalizeExpiryInput (m ! 0))
               (decimal_Number (m ! 1)) (right_letter (m ! 2))
           else if monthNoUnderlying \<noteq> None \<and> given fallbackUnderlying then
             let m = the monthNoUnderlying in
             finish_desc (toUpperCase (the fallbackUnderlying))
               (month_expiry (m ! 0) (m ! 1) (m ! 2)) (decimal_Number (m ! 3))
               (right_letter (m ! 4))
           else None)))"

section \<open>Strategy netting\<close>

text \<open>
  The fields of a \<open>Position\<close> that \<open>positionsDisplay\<close> reads or overwrites; the others
  (owner, sector, greeks and so on) are copied along unchanged and never looked at. An
  optional field that is absent or null is \<open>None\<close>.
\<close>

record position =
  p_symbol :: string
  p_asset_class :: "string option"
  p_expiry :: "string option"
  p_strike :: "jsnum option"
  p_option_type :: "string option"
  p_multiplier :: "jsnum option"
  p_qty :: jsnum
  p_price :: jsnum
  p_market_value :: jsnum
  p_avg_cost :: "jsnum option"
  p_day_pnl :: "jsnum option"
  p_total_pnl :: "jsnum option"
  p_day_pnl_pct :: "jsnum option"
  p_total_pnl_pct :: "jsnum option"
  p_strategy :: "string option"
  p_strategy_id :: "string option"
  p_strategy_name :: "string option"

text \<open>
  A row of the display: a position passed through as it is, a synthetic summary (flag
  \<open>isStrategySummary\<close>, with its \<open>position_side\<close> and \<open>legCount\<close>), or a leg shown under
  its summary (flag \<open>isStrategyLeg\<close>).
\<close>

datatype display_row = Row position | Summary position string nat | Leg position

datatype order_entry = OrderRow position | OrderGroup string

text \<open>\<open>a || b\<close> on strings, \<open>x || 0\<close> on an optional number.\<close>

definition str_of :: "string option \<Rightarrow> string" where
  "str_of v = (case v of None \<Rightarrow> [] | Some x \<Rightarrow> x)"

definition s_or :: "string \<Rightarrow> string \<Rightarrow> string" where
  "s_or a b = (if a \<noteq> [] then a else b)"

definition num_or :: "jsnum option \<Rightarrow> jsnum \<Rightarrow> jsnum" where
  "num_or v d = (case v of None \<Rightarrow> d | Some x \<Rightarrow> js_or x d)"

text \<open>\<open>Math.min(...vs)\<close>: \<open>Infinity\<close> for no argument, NaN as soon as one argument is NaN.\<close>

definition js_min :: "jsnum \<Rightarrow> jsnum \<Rightarrow> jsnum" where
  "js_min a b = (if a = NaN \<or> b = NaN then NaN else if js_lt b a then b else a)"

definition Math_min :: "jsnum list \<Rightarrow> jsnum" where
  "Math_min vs = foldl js_min PInf vs"

definition strategy_filtered :: "string \<Rightarrow> position list \<Rightarrow> position list" where
  "strategy_filtered strategyFilter positions =
     (if strategyFilter \<noteq> [] then
        filter (\<lambda>row. str_includes
                  (toLowerCase (s_or (str_of (p_strategy_name row)) (str_of (p_strategy row))))
                  (toLowerCase strategyFilter)) positions
      else positions)"

definition strategyId_of :: "position \<Rightarrow> string" where
  "strategyId_of row = s_or (str_of (p_strategy_id row)) (str_of (p_strategy row))"

definition is_grouped :: "position \<Rightarrow> bool" where
  "is_grouped row =
     (toLowerCase (str_of (p_asset_class row)) = ''option'' \<and> strategyId_of row \<noteq> [])"

text \<open>One turn of the first loop: \<open>grouped\<close> is the \<open>Map\<close>, \<open>order\<close> the list of entries.\<close>

definition group_step ::
  "(string \<Rightarrow> position list option) \<times> order_entry list \<Rightarrow> position \<Rightarrow>
   (string \<Rightarrow> position list option) \<times> order_entry list" where
  "group_step st row =
     (let grouped = fst st; order = snd st; strategyId = strategyId_of row in
      if is_grouped row then
        (case grouped strategyId of
           None \<Rightarrow> (grouped(strategyId \<mapsto> [row]), order @ [OrderGroup strategyId])
         | Some legs \<Rightarrow> (grouped(strategyId \<mapsto> legs @ [row]), order))
      else (grouped, order @ [OrderRow row]))"

text \<open>The sums of the second loop over the legs of one group.\<close>

record totals =
  netValue :: jsnum
  netAvgValue :: jsnum
  netMv :: jsnum
  netPnl :: jsnum
  netDay :: jsnum

definition leg_step :: "jsnum \<Rightarrow> totals \<Rightarrow> position \<Rightarrow> totals" where
  "leg_step baseMultiplier t leg =
     (let qty = js_or (p_qty leg) (Fin 0);
          rawPrice = js_or (p_price leg) (Fin 0);
          avg = (case p_avg_cost leg of Some a \<Rightarrow> a | None \<Rightarrow> p_price leg);
          price = (if js_lt (Fin 0) rawPrice then rawPrice
                   else if js_lt (Fin 0) avg then avg else Fin 0);
          multiplier = js_or (num_or (p_multiplier leg) baseMultiplier) baseMultiplier
      in \<lparr>netValue = js_add (netValue t) (js_mul (js_mul qty price) multiplier),
          netAvgValue = js_add (netAvgValue t) (js_mul (js_mul qty avg) multiplier),
          netMv = js_add (netMv t) (js_or (p_market_value leg) (Fin 0)),
          netPnl = js_add (netPnl t) (num_or (p_total_pnl leg) (Fin 0)),
          netDay = js_add (netDay t) (num_or (p_day_pnl leg) (Fin 0))\<rparr>)"

definition units_of :: "position list \<Rightarrow> jsnum" where
  "units_of legs =
     js_or (js_or (Math_min (filter (\<lambda>v. js_lt (Fin 0) v)
                             (map (\<lambda>l. Math_abs (js_or (p_qty l) (Fin 0))) legs)))
                  (Math_abs (js_or (p_qty (hd legs)) (Fin 0))))
           (Fin 1)"

text \<open>The rows pushed for a group of at least two legs: the summary, then the legs unless
  the group is collapsed.\<close>

definition summarize :: "(string \<Rightarrow> bool) \<Rightarrow> string \<Rightarrow> position list \<Rightarrow> display_row list" where
  "summarize collapsedStrategies strategyId legs =
     (let units = units_of legs;
          baseMultiplier = js_or (num_or (p_multiplier (hd legs)) (Fin 100)) (Fin 100);
          t = foldl (leg_step baseMultiplier)
                \<lparr>netValue = Fin 0, netAvgValue = Fin 0, netMv = Fin 0, netPnl = Fin 0,
                   netDay = Fin 0\<rparr> legs;
          netPrice = (if truthy units then js_div (netValue t) (js_mul units baseMultiplier)
                      else Fin 0);
          netAvgCost = (if truthy units then js_div (netAvgValue t) (js_mul units baseMultiplier)
                        else Fin 0);
          pctDenom = (if js_lt (Fin 0) (Math_abs netAvgCost)
                      then js_mul (js_mul (Math_abs netAvgCost) units) baseMultiplier else Fin 0);
          totalPnlPct = (if truthy pctDenom then js_mul (js_div (netPnl t) pctDenom) (Fin 100)
                         else Fin 0);
          dayPnlPct = (if truthy pctDenom then js_mul (js_div (netDay t) pctDenom) (Fin 100)
                       else Fin 0);
          summarySide = (if js_lt (netValue t) (Fin 0) then ''SHORT'' else ''LONG'');
          strategyName = s_or (s_or (str_of (p_strategy_name (hd legs))) (str_of (p_strategy (hd legs))))
                              (''Strategy '' @ slice 0 6 strategyId);
          summary = (hd legs)
            \<lparr>p_symbol := strategyName, p_asset_class := Some ''strategy'', p_qty := units,
             p_price := netPrice, p_avg_cost := Some netAvgCost, p_market_value := netMv t,
             p_total_pnl := Some (netPnl t), p_day_pnl := Some (netDay t),
             p_total_pnl_pct := Some totalPnlPct, p_day_pnl_pct := Some dayPnlPct,
             p_expiry := None, p_strike := None, p_option_type := None,
             p_strategy := Some strategyName, p_strategy_id := Some strategyId,
             p_strategy_name := Some strategyName\<rparr>
      in Summary summary summarySide (length legs) #
         (if collapsedStrategies strategyId then []
          else map (\<lambda>leg. Leg (leg\<lparr>p_strategy_id := Some strategyId,
                                    p_strategy_name := Some strategyName\<rparr>)) legs))"

definition emit ::
  "(string \<Rightarrow> bool) \<Rightarrow> (string \<Rightarrow> position list option) \<Rightarrow> order_entry \<Rightarrow> display_row list" where
  "emit collapsedStrategies grouped entry =
     (case entry of
        OrderRow row \<Rightarrow> [Row row]
      | OrderGroup strategyId \<Rightarrow>
          (let legs = (case grouped strategyId of None \<Rightarrow> [] | Some ls \<Rightarrow> ls) in
           if length legs < 2 then map Row legs
           else summarize collapsedStrategies strategyId legs))"

definition positionsDisplay ::
  "position list \<Rightarrow> (string \<Rightarrow> bool) \<Rightarrow> string \<Rightarrow> display_row list" where
  "positionsDisplay positions collapsedStrategies strategyFilter =
     (if positions = [] then []
      else
        let filtered = strategy_filtered strategyFilter positions in
        if filtered = [] then []
        else
          let st = foldl group_step (Map.empty, []) filtered
          in concat (map (emit collapsedStrategies (fst st)) (snd st)))"

section \<open>Reading CSV text\<close>

definition blank_row :: "string list \<Rightarrow> bool" where
  "blank_row row = list_all (\<lambda>cell. trim cell = []) row"

text \<open>
  The loop of \<open>parseCsvRows\<close> over the characters that are left; \<open>current\<close>, \<open>row\<close>,
  \<open>inQuotes\<close> and \<open>rows\<close> are its variables.
\<close>

fun csv_loop ::
  "string \<Rightarrow> bool \<Rightarrow> string \<Rightarrow> string list \<Rightarrow> string list list \<Rightarrow>
   string \<times> string list \<times> string list list" where
  "csv_loop [] inQuotes current row rows = (current, row, rows)"
| "csv_loop (ch # rest) inQuotes current row rows =
     (if inQuotes then
        (if ch = CHR 0x22 then
           (case rest of
              d # rest' \<Rightarrow>
                if d = CHR 0x22 then csv_loop rest' True (current @ [CHR 0x22]) row rows
                else csv_loop (d # rest') False current row rows
            | [] \<Rightarrow> csv_loop [] False current row rows)
         else csv_loop rest True (current @ [ch]) row rows)
      else if ch = CHR 0x22 then csv_loop rest True current row rows
      else if ch = CHR '','' then csv_loop rest False [] (row @ [current]) rows
      else if ch = CHR 0x0A \<or> ch = CHR 0x0D then
        (let rows' = (if blank_row (row @ [current]) then rows else rows @ [row @ [current]]) in
         case rest of
           d # rest' \<Rightarrow>
             if ch = CHR 0x0D \<and> d = CHR 0x0A then csv_loop rest' False [] [] rows'
             else csv_loop (d # rest') False [] [] rows'
         | [] \<Rightarrow> csv_loop [] False [] [] rows')
      else csv_loop rest False (current @ [ch]) row rows)"

definition parseCsvRows :: "string \<Rightarrow> string list list" where
  "parseCsvRows text =
     (case csv_loop text False [] [] [] of
        (current, row, rows) \<Rightarrow>
          if current \<noteq> [] \<or> row \<noteq> [] then
            (if blank_row (row @ [current]) then rows else rows @ [row @ [current]])
          else rows)"

text \<open>\<open>cols[idx] ?? ""\<close> and \<open>row[idx] || ""\<close>: a cell that is not there reads as empty.\<close>

definition cell :: "string list \<Rightarrow> nat \<Rightarrow> string" where
  "cell row idx = (if idx < length row then row ! idx else [])"

text \<open>
  An object with string keys is an association list. Assigning to a key that is there
  keeps its place; \<open>Object.keys\<close> lists the keys that are array indices first, in
  ascending order, then the others in the order they were added. Assigning a string to
  the key \<open>__proto__\<close> adds no property.
\<close>

type_synonym obj = "(string \<times> string) list"

fun obj_set :: "obj \<Rightarrow> string \<Rightarrow> string \<Rightarrow> obj" where
  "obj_set [] k v = [(k, v)]"
| "obj_set ((k', v') # kvs) k v = (if k' = k then (k, v) # kvs else (k', v') # obj_set kvs k v)"

definition is_array_index :: "string \<Rightarrow> bool" where
  "is_array_index k =
     (k \<noteq> [] \<and> list_all is_digit k \<and> (k = ''0'' \<or> hd k \<noteq> CHR ''0'') \<and>
      digits_value k < 2 ^ 32 - 1)"

definition object_keys :: "obj \<Rightarrow> string list" where
  "object_keys ob =
     (let ks = map fst ob
      in sort_key digits_value (filter is_array_index ks) @ filter (\<lambda>k. \<not> is_array_index k) ks)"

definition parseCsv :: "string \<Rightarrow> obj list" where
  "parseCsv text =
     (let rows = parseCsvRows text in
      if rows = [] then []
      else
        let header = map trim (hd rows) in
        map (\<lambda>cols. foldl (\<lambda>data (key, idx).
                                  if key = ''__proto__'' then data
                                  else obj_set data key (cell cols idx)) []
                         (zip header [0 ..< length header]))
            (tl rows))"

text \<open>The model has no byte-order mark (it is not an ASCII character): nothing to strip.\<close>

definition stripBom :: "string \<Rightarrow> string" where
  "stripBom v = v"

definition is_lower_alnum :: "char \<Rightarrow> bool" where
  "is_lower_alnum c = (is_lower c \<or> is_digit c)"

text \<open>\<^verbatim>\<open>.replace(/^_+|_+$/g, "")\<close>\<close>

definition strip_underscores :: "string \<Rightarrow> string" where
  "strip_underscores s =
     rev (dropWhile (\<lambda>c. c = CHR ''_'') (rev (dropWhile (\<lambda>c. c = CHR ''_'') s)))"

definition normalizeHeader :: "string \<Rightarrow> string" where
  "normalizeHeader key =
     strip_underscores
       (replace_runs (\<lambda>c. \<not> is_lower_alnum c) ''_'' (trim (toLowerCase (stripBom key))))"

section \<open>Numbers in cells\<close>

text \<open>
  \<open>Number(s)\<close> on a string: white space around is dropped, the empty string is 0, then
  a signed decimal literal (with an optional fraction and exponent), a signed
  \<open>Infinity\<close>, or an unsigned binary, octal or hexadecimal integer; anything else is NaN.
\<close>

definition hex_val :: "char \<Rightarrow> nat option" where
  "hex_val c =
     (if is_digit c then Some (digit_val c)
      else if code CHR ''a'' \<le> code c \<and> code c \<le> code CHR ''f'' then Some (code c - code CHR ''a'' + 10)
      else if code CHR ''A'' \<le> code c \<and> code c \<le> code CHR ''F'' then Some (code c - code CHR ''A'' + 10)
      else None)"

definition radix_Number :: "nat \<Rightarrow> string \<Rightarrow> jsnum" where
  "radix_Number b ds =
     (if ds \<noteq> [] \<and> list_all (\<lambda>c. case hex_val c of None \<Rightarrow> False | Some v \<Rightarrow> v < b) ds
      then literal_value (real (foldl (\<lambda>a c. b * a + the (hex_val c)) 0 ds))
      else NaN)"

text \<open>The exponent part: nothing, or \<open>e\<close>, an optional sign and digits.\<close>

definition exponent_of :: "string \<Rightarrow> int option" where
  "exponent_of s =
     (case s of
        [] \<Rightarrow> Some 0
      | c # r \<Rightarrow>
          if c = CHR ''e'' \<or> c = CHR ''E'' then
            (let neg = (r \<noteq> [] \<and> hd r = CHR ''-'');
                 ds = (if r \<noteq> [] \<and> (hd r = CHR ''-'' \<or> hd r = CHR ''+'') then tl r else r)
             in if ds \<noteq> [] \<and> list_all is_digit ds
                then Some (if neg then - int (digits_value ds) else int (digits_value ds))
                else None)
          else None)"

definition unsigned_Number :: "string \<Rightarrow> jsnum" where
  "unsigned_Number s =
     (if s = ''Infinity'' then PInf
      else
        let ip = takeWhile is_digit s;
            r1 = dropWhile is_digit s;
            fp = (if r1 \<noteq> [] \<and> hd r1 = CHR ''.'' then takeWhile is_digit (tl r1) else []);
            r2 = (if r1 \<noteq> [] \<and> hd r1 = CHR ''.'' then dropWhile is_digit (tl r1) else r1)
        in if ip = [] \<and> fp = [] then NaN
           else case exponent_of r2 of
                  None \<Rightarrow> NaN
                | Some e \<Rightarrow>
                    literal_value
                      ((real (digits_value ip) + real (digits_value fp) / 10 ^ length fp)
                       * (if 0 \<le> e then 10 ^ nat e else 1 / 10 ^ nat (- e))))"

definition js_Number :: "string \<Rightarrow> jsnum" where
  "js_Number s =
     (let t = trim s in
      if t = [] then Fin 0
      else if startsWith t ''0x'' \<or> startsWith t ''0X'' then radix_Number 16 (drop 2 t)
      else if startsWith t ''0o'' \<or> startsWith t ''0O'' then radix_Number 8 (drop 2 t)
      else if startsWith t ''0b'' \<or> startsWith t ''0B'' then radix_Number 2 (drop 2 t)
      else if hd t = CHR ''-'' then js_neg (unsigned_Number (tl t))
      else if hd t = CHR ''+'' then unsigned_Number (tl t)
      else unsigned_Number t)"

text \<open>\<^verbatim>\<open>/^\(.*\)$/\<close>: the dot does not match a line terminator.\<close>

definition parens_re :: re where
  "parens_re = Seq [Bol, chr CHR ''('', Rep (\<lambda>c. c \<noteq> CHR 0x0A \<and> c \<noteq> CHR 0x0D) 0 None,
                    chr CHR '')'', Eol]"

definition parseNumber :: "string \<Rightarrow> jsnum" where
  "parseNumber raw =
     (if raw = [] then NaN
      else
        let trimmed = trim raw in
        if trimmed = [] then NaN
        else
          let negative = re_test parens_re trimmed;
              cleaned = filter (\<lambda>c. c \<noteq> CHR ''('' \<and> c \<noteq> CHR '')'')
                          (filter (\<lambda>c. c \<noteq> CHR '','' \<and> c \<noteq> CHR ''$'' \<and> c \<noteq> CHR ''%'') trimmed);
              v = js_Number cleaned
          in if \<not> isFinite v then NaN else if negative then js_neg v else v)"

section \<open>Positions extracted from a file\<close>

text \<open>A position object as posted to \<open>/positions/bulk\<close>; \<open>undefined\<close> is \<open>None\<close>.\<close>

record payload =
  pl_instrument_id :: "string option"
  pl_symbol :: string
  pl_qty :: jsnum
  pl_price :: jsnum
  pl_avg_cost :: "jsnum option"
  pl_asset_class :: string
  pl_underlying :: "string option"
  pl_expiry :: "string option"
  pl_strike :: "jsnum option"
  pl_option_type :: "string option"
  pl_multiplier :: "jsnum option"
  pl_entry_date :: "string option"
  pl_sector :: "string option"
  pl_strategy :: "string option"

text \<open>\<open>x || undefined\<close> on a string.\<close>

definition or_undefined :: "string \<Rightarrow> string option" where
  "or_undefined x = (if x = [] then None else Some x)"

text \<open>The test of both filters: \<open>row.symbol && Number.isFinite(row.qty) && row.qty !== 0\<close>.\<close>

definition usable :: "payload \<Rightarrow> bool" where
  "usable row = (pl_symbol row \<noteq> [] \<and> isFinite (pl_qty row) \<and> pl_qty row \<noteq> Fin 0)"

subsection \<open>Account statements\<close>

fun index_from :: "nat \<Rightarrow> string \<Rightarrow> string list \<Rightarrow> nat option" where
  "index_from i k [] = None"
| "index_from i k (h # hs) = (if h = k then Some i else index_from (Suc i) k hs)"

text \<open>\<open>header.indexOf(k)\<close>, with \<open>None\<close> for \<open>-1\<close>.\<close>

definition indexOf :: "string list \<Rightarrow> string \<Rightarrow> nat option" where
  "indexOf header k = index_from 0 k header"

text \<open>\<open>header.indexOf(a) >= 0 ? header.indexOf(a) : header.indexOf(b)\<close>\<close>

definition indexOf2 :: "string list \<Rightarrow> string \<Rightarrow> string \<Rightarrow> nat option" where
  "indexOf2 header a b = (case indexOf header a of Some i \<Rightarrow> Some i | None \<Rightarrow> indexOf header b)"

text \<open>\<open>idx >= 0 ? (row[idx] || "").trim() : ""\<close>\<close>

definition opt_cell :: "string list \<Rightarrow> nat option \<Rightarrow> string" where
  "opt_cell row idx = (case idx of None \<Rightarrow> [] | Some i \<Rightarrow> trim (cell row i))"

text \<open>\<open>idx >= 0 ? parseNumber(row[idx] || "") : NaN\<close>\<close>

definition opt_number :: "string list \<Rightarrow> nat option \<Rightarrow> jsnum" where
  "opt_number row idx = (case idx of None \<Rightarrow> NaN | Some i \<Rightarrow> parseNumber (cell row i))"

definition isSectionHeader :: "string list \<Rightarrow> bool" where
  "isSectionHeader row =
     (length row = 1 \<or> (trim (cell row 0) \<noteq> [] \<and> \<not> list_ex (\<lambda>c. trim c \<noteq> []) (tl row)))"

definition join :: "string \<Rightarrow> string list \<Rightarrow> string" where
  "join sep xs = (case xs of [] \<Rightarrow> [] | y # ys \<Rightarrow> y @ concat (map (\<lambda>x. sep @ x) ys))"

record columns =
  symbolIdx :: nat
  descIdx :: "nat option"
  qtyIdx :: nat
  tradeIdx :: "nat option"
  markIdx :: "nat option"
  lastIdx :: "nat option"
  priceIdx :: "nat option"
  underlyingIdx :: "nat option"
  expiryIdx :: "nat option"
  strikeIdx :: "nat option"
  rightIdx :: "nat option"

text \<open>
  The body of the inner loop for one row that passed the symbol and quantity checks, in
  its steps. First the object as it stands before the option identity is looked for.
\<close>

definition plain_position :: "columns \<Rightarrow> string \<Rightarrow> string list \<Rightarrow> string \<Rightarrow> jsnum \<Rightarrow> payload" where
  "plain_position cs assetClass row rawSymbol qty =
     (let tradePrice = opt_number row (tradeIdx cs);
          mark = opt_number row (markIdx cs);
          lst = opt_number row (lastIdx cs);
          directPrice = opt_number row (priceIdx cs);
          candidates = filter (\<lambda>v. isFinite v \<and> js_lt (Fin 0) v) [mark, lst, directPrice, tradePrice];
          price = (case candidates of [] \<Rightarrow> Fin 0 | c # _ \<Rightarrow> c);
          avgCost = (if isFinite tradePrice \<and> js_lt (Fin 0) tradePrice then Some tradePrice
                     else if js_lt (Fin 0) price then Some price else None)
      in \<lparr>pl_instrument_id = None,
          pl_symbol = toUpperCase (filter (\<lambda>c. \<not> is_space c) rawSymbol),
          pl_qty = qty, pl_price = price, pl_avg_cost = avgCost, pl_asset_class = assetClass,
          pl_underlying = None, pl_expiry = None, pl_strike = None, pl_option_type = None,
          pl_multiplier = None, pl_entry_date = None, pl_sector = None, pl_strategy = None\<rparr>)"

text \<open>The symbol itself is a contract symbol.\<close>

definition with_osi :: "payload \<Rightarrow> osi \<Rightarrow> payload" where
  "with_osi p parsedSymbol =
     p\<lparr>pl_asset_class := ''OPTION'',
       pl_underlying := or_undefined (osi_underlying parsedSymbol),
       pl_expiry := or_undefined (osi_expiry parsedSymbol),
       pl_strike := Some (osi_strike parsedSymbol),
       pl_option_type := or_undefined (osi_option_type parsedSymbol)\<rparr>"

text \<open>The underlying, expiry, strike and right columns are all filled and build a symbol.\<close>

definition with_columns :: "columns \<Rightarrow> string list \<Rightarrow> payload \<Rightarrow> payload" where
  "with_columns cs row p =
     (let rawUnderlying = opt_cell row (underlyingIdx cs);
          rawExpiry = opt_cell row (expiryIdx cs);
          rawStrike = opt_cell row (strikeIdx cs);
          rawRight = opt_cell row (rightIdx cs);
          normalizedExpiry = normalizeExpiryInput rawExpiry;
          parsedStrike = parseNumber rawStrike;
          right = right_letter (toUpperCase rawRight);
          built = (if rawUnderlying \<noteq> [] \<and> rawExpiry \<noteq> [] \<and> rawStrike \<noteq> [] \<and>
                      rawRight \<noteq> [] \<and> normalizedExpiry \<noteq> [] \<and> isFinite parsedStrike
                   then buildOsiSymbol rawUnderlying normalizedExpiry right parsedStrike
                   else [])
      in if built \<noteq> [] then
           p\<lparr>pl_symbol := built, pl_asset_class := ''OPTION'',
             pl_underlying := or_undefined (toUpperCase rawUnderlying),
             pl_expiry := or_undefined normalizedExpiry,
             pl_strike := Some parsedStrike,
             pl_option_type := Some (if right = ''P'' then ''PUT'' else ''CALL'')\<rparr>
         else p)"

text \<open>The description, then the raw symbol, then the text of the whole row is tried as an
  option description.\<close>

definition described :: "columns \<Rightarrow> string list \<Rightarrow> string \<Rightarrow> string \<Rightarrow> option_desc option" where
  "described cs row rawSymbol symbol =
     (let desc = opt_cell row (descIdx cs);
          rawUnderlying = opt_cell row (underlyingIdx cs);
          fb = Some (s_or rawUnderlying (s_or symbol rawSymbol));
          rowText = join '' '' (filter (\<lambda>c. trim c \<noteq> []) row);
          d1 = parseOptionDescription desc fb;
          d2 = (if d1 = None \<and> rawSymbol \<noteq> [] then parseOptionDescription rawSymbol fb else d1)
      in if d2 = None \<and> rowText \<noteq> [] then parseOptionDescription rowText fb else d2)"

definition with_desc :: "payload \<Rightarrow> option_desc \<Rightarrow> payload" where
  "with_desc p parsedDesc =
     p\<lparr>pl_symbol := od_symbol parsedDesc, pl_asset_class := ''OPTION'',
       pl_underlying := or_undefined (od_underlying parsedDesc),
       pl_expiry := or_undefined (od_expiry parsedDesc),
       pl_strike := Some (od_strike parsedDesc),
       pl_option_type := or_undefined (od_option_type parsedDesc)\<rparr>"

text \<open>
  The position pushed for the row, and the value of \<open>assetClass\<close> afterwards (an option
  row sets it for the rows that follow in the section).
\<close>

definition statement_position ::
  "columns \<Rightarrow> string \<Rightarrow> string list \<Rightarrow> string \<Rightarrow> jsnum \<Rightarrow> payload \<times> string" where
  "statement_position cs assetClass row rawSymbol qty =
     (let p0 = plain_position cs assetClass row rawSymbol qty in
      case parseOsiSymbol (pl_symbol p0) of
        Some parsedSymbol \<Rightarrow> (with_osi p0 parsedSymbol, ''OPTION'')
      | None \<Rightarrow>
          (let p1 = with_columns cs row p0 in
           case described cs row rawSymbol (pl_symbol p1) of
             Some parsedDesc \<Rightarrow> (with_desc p1 parsedDesc, ''OPTION'')
           | None \<Rightarrow> (p1, pl_asset_class p1)))"

text \<open>
  The inner loop over the rows below a section's header row: it stops at a blank row, at
  the next section header and at a total row, and skips a row with no symbol or with a
  quantity that is not a finite number or is zero.
\<close>

fun section_rows :: "columns \<Rightarrow> string \<Rightarrow> string list list \<Rightarrow> payload list" where
  "section_rows cs assetClass [] = []"
| "section_rows cs assetClass (row # rest) =
     (if blank_row row then []
      else if isSectionHeader row then []
      else if str_includes (toLowerCase (trim (cell row 1))) ''total'' then []
      else
        let rawSymbol = trim (cell row (symbolIdx cs)) in
        if rawSymbol = [] then section_rows cs assetClass rest
        else
          let qty = parseNumber (cell row (qtyIdx cs)) in
          if \<not> isFinite qty \<or> qty = Fin 0 then section_rows cs assetClass rest
          else
            let r = statement_position cs assetClass row rawSymbol qty
            in fst r # section_rows cs (snd r) rest)"

text \<open>The columns of a section, from its normalized header row.\<close>

definition section_columns :: "string list \<Rightarrow> columns" where
  "section_columns header =
     \<lparr>symbolIdx = the (indexOf header ''symbol''),
      descIdx = indexOf header ''description'',
      qtyIdx = the (indexOf header ''qty''),
      tradeIdx = indexOf header ''trade_price'',
      markIdx = indexOf header ''mark'',
      lastIdx = indexOf header ''last'',
      priceIdx = indexOf header ''price'',
      underlyingIdx = indexOf2 header ''underlying'' ''root'',
      expiryIdx = indexOf2 header ''expiry'' ''expiration_date'',
      strikeIdx = indexOf2 header ''strike'' ''strike_price'',
      rightIdx = indexOf2 header ''option_type'' ''put_call''\<rparr>"

definition isPositionSection :: "string \<Rightarrow> bool" where
  "isPositionSection sectionUpper =
     list_ex (str_includes sectionUpper)
       [''EQUITIES'', ''OPTIONS'', ''FUTURES'', ''FOREX'', ''CRYPTO'', ''POSITIONS'']"

text \<open>The three assignments to \<open>assetClass\<close>: the last one that applies wins.\<close>

definition section_asset_class :: "string \<Rightarrow> string" where
  "section_asset_class sectionUpper =
     (if str_includes sectionUpper ''FOREX'' then ''FOREX''
      else if str_includes sectionUpper ''FUTURE'' then ''FUTURE''
      else if str_includes sectionUpper ''OPTION'' then ''OPTION''
      else ''EQUITY'')"

text \<open>One turn of the outer loop: row \<open>i\<close> names the section, row \<open>i + 1\<close> is its header.\<close>

definition section_at :: "string list list \<Rightarrow> nat \<Rightarrow> payload list" where
  "section_at rows i =
     (let sectionName = trim (cell (rows ! i) 0);
          header = map normalizeHeader (rows ! (i + 1));
          sectionUpper = toUpperCase sectionName
      in if ''symbol'' \<notin> set header \<or> ''qty'' \<notin> set header then []
         else if ''mark'' \<notin> set header \<and> ''last'' \<notin> set header \<and>
                 ''trade_price'' \<notin> set header \<and> ''price'' \<notin> set header then []
         else if \<not> isPositionSection sectionUpper then []
         else section_rows (section_columns header) (section_asset_class sectionUpper)
                (drop (i + 2) rows))"

definition parseAccountStatementPositions :: "string list list \<Rightarrow> payload list" where
  "parseAccountStatementPositions rows =
     (if rows = [] then [] else concat (map (section_at rows) [0 ..< length rows - 1]))"

subsection \<open>Generic CSV\<close>

definition obj_get :: "obj \<Rightarrow> string \<Rightarrow> string option" where
  "obj_get ob k = map_of ob k"

definition aliasMap :: "string \<Rightarrow> string list" where
  "aliasMap key = (case map_of
     [(''instrument_id'', [''instrument_id'', ''instrumentid'', ''id'']),
      (''symbol'', [''symbol'', ''sym'', ''ticker'', ''instrument'', ''instrument_symbol'',
                    ''option_symbol'', ''security'', ''description'']),
      (''qty'', [''qty'', ''quantity'', ''position'', ''pos'', ''position_qty'', ''net_qty'',
                 ''net_quantity'', ''units'', ''size'']),
      (''price'', [''price'', ''mark'', ''last'', ''last_price'', ''mark_price'', ''market_price'',
                   ''current_price'']),
      (''avg_cost'', [''avg_cost'', ''avg'', ''average_price'', ''avg_price'', ''trade_price'',
                      ''entry_price'', ''cost'', ''cost_basis'', ''basis'']),
      (''entry_date'', [''entry_date'', ''entrydate'', ''open_date'', ''opendate'', ''opened'',
                        ''date_opened'', ''opened_on'']),
      (''asset_class'', [''asset_class'', ''asset'', ''type'', ''instrument_type'',
                         ''security_type'', ''product_type'']),
      (''underlying'', [''underlying'', ''underlier'', ''root'', ''root_symbol'',
                        ''underlying_symbol'']),
      (''expiry'', [''expiry'', ''exp'', ''expiration'', ''expiration_date'', ''exp_date'']),
      (''strike'', [''strike'', ''strike_price'']),
      (''option_type'', [''option_type'', ''right'', ''put_call'', ''call_put'', ''cp'', ''p_c'']),
      (''multiplier'', [''multiplier'', ''contract_multiplier'', ''mult'']),
      (''sector'', [''sector'', ''industry'']),
      (''strategy'', [''strategy'', ''strategy_name'', ''book'', ''portfolio'']),
      (''side'', [''side'', ''direction'', ''long_short'', ''longshort''])] key
     of Some as \<Rightarrow> as | None \<Rightarrow> [])"

fun first_value :: "obj \<Rightarrow> string list \<Rightarrow> string" where
  "first_value normalized [] = []"
| "first_value normalized (alias # rest) =
     (case obj_get normalized (normalizeHeader alias) of
        Some v \<Rightarrow> if v \<noteq> [] then v else first_value normalized rest
      | None \<Rightarrow> first_value normalized rest)"

definition normalized_row :: "obj \<Rightarrow> obj" where
  "normalized_row raw =
     foldl (\<lambda>n key. obj_set n (normalizeHeader key) (str_of (obj_get raw key))) [] (object_keys raw)"

text \<open>\<^verbatim>\<open>/^[A-Z0-9]{1,4}[FGHJKMNQUVXZ][0-9]{2}$/\<close>\<close>

definition future_re :: re where
  "future_re = Seq [Bol, Rep is_upper_alnum 1 (Some 4),
                    Rep (\<lambda>c. c \<in> set ''FGHJKMNQUVXZ'') 1 (Some 1), digits 2, Eol]"

definition isFutureSymbol :: "string \<Rightarrow> bool" where
  "isFutureSymbol v = (let s = toUpperCase (trim v) in s \<noteq> [] \<and> re_test future_re s)"

text \<open>The object built for one row of a generic CSV file.\<close>

definition generic_position :: "obj \<Rightarrow> payload" where
  "generic_position raw =
     (let normalized = normalized_row raw;
          pick = (\<lambda>key. first_value normalized (aliasMap key));
          rawSymbol = pick ''symbol'';
          parsedDesc = parseOptionDescription rawSymbol (Some (pick ''underlying''));
          cleanedSymbol = toUpperCase (filter (\<lambda>c. \<not> is_space c) rawSymbol);
          parsedSymbol = parseOsiSymbol cleanedSymbol;
          underlying = toUpperCase
            (s_or (pick ''underlying'')
               (s_or (case parsedDesc of Some d \<Rightarrow> od_underlying d | None \<Rightarrow> [])
                     (case parsedSymbol of Some p \<Rightarrow> osi_underlying p | None \<Rightarrow> [])));
          expiry = s_or (pick ''expiry'')
               (s_or (case parsedDesc of Some d \<Rightarrow> od_expiry d | None \<Rightarrow> [])
                     (case parsedSymbol of Some p \<Rightarrow> osi_expiry p | None \<Rightarrow> []));
          strikeRaw = pick ''strike'';
          strike = (if isFinite (parseNumber strikeRaw) \<and> strikeRaw \<noteq> [] then Some (parseNumber strikeRaw)
                    else case parsedDesc of
                           Some d \<Rightarrow> Some (od_strike d)
                         | None \<Rightarrow> (case parsedSymbol of Some p \<Rightarrow> Some (osi_strike p) | None \<Rightarrow> None));
          rightRaw = toUpperCase
            (s_or (pick ''option_type'')
               (s_or (case parsedDesc of Some d \<Rightarrow> od_option_type d | None \<Rightarrow> [])
                     (case parsedSymbol of Some p \<Rightarrow> osi_option_type p | None \<Rightarrow> [])));
          right = (if startsWith rightRaw ''P'' then ''PUT''
                   else if startsWith rightRaw ''C'' then ''CALL'' else rightRaw);
          sideRaw = toUpperCase (pick ''side'');
          symbol =
            (if parsedSymbol = None \<and> parsedDesc \<noteq> None \<and> od_symbol (the parsedDesc) \<noteq> []
             then od_symbol (the parsedDesc)
             else if parsedSymbol = None \<and> underlying \<noteq> [] \<and> expiry \<noteq> [] \<and>
                     (case strike of Some k \<Rightarrow> truthy k | None \<Rightarrow> False) \<and> right \<noteq> []
             then
               (let built = buildOsiSymbol underlying (normalizeExpiryInput expiry)
                              (right_letter right) (the strike)
                in if built \<noteq> [] then built else cleanedSymbol)
             else cleanedSymbol);
          assetClassRaw = toUpperCase (pick ''asset_class'');
          isOption = (parseOsiSymbol symbol \<noteq> None \<or> startsWith right ''P'' \<or>
                      startsWith right ''C'' \<or> str_includes assetClassRaw ''OPT'' \<or>
                      str_includes assetClassRaw ''CALL'' \<or> str_includes assetClassRaw ''PUT'');
          isFuture = (str_includes assetClassRaw ''FUT'' \<or> str_includes assetClassRaw ''FUTURE'' \<or>
                      isFutureSymbol symbol);
          qtyRaw = parseNumber (pick ''qty'');
          qty0 = (if isFinite qtyRaw then qtyRaw else Fin 0);
          qty1 = (if qty0 \<noteq> Fin 0 \<and> sideRaw \<noteq> [] \<and>
                     (str_includes sideRaw ''SHORT'' \<or> str_includes sideRaw ''SELL'')
                  then js_neg (Math_abs qty0) else qty0);
          qty = (if qty0 \<noteq> Fin 0 \<and> sideRaw \<noteq> [] \<and>
                    (str_includes sideRaw ''LONG'' \<or> str_includes sideRaw ''BUY'')
                 then Math_abs qty1 else qty1);
          priceRaw = parseNumber (pick ''price'');
          avgRaw = parseNumber (pick ''avg_cost'');
          price = (if isFinite priceRaw then priceRaw else if isFinite avgRaw then avgRaw else Fin 0);
          avg_cost = (if isFinite avgRaw then Some avgRaw
                      else if isFinite priceRaw then Some priceRaw else None);
          entryDateRaw = normalizeExpiryInput (pick ''entry_date'')
      in \<lparr>pl_instrument_id = or_undefined (pick ''instrument_id''),
          pl_symbol = toUpperCase symbol,
          pl_qty = qty,
          pl_price = price,
          pl_avg_cost = avg_cost,
          pl_asset_class = toUpperCase
            (s_or (pick ''asset_class'')
                  (if isOption then ''OPTION'' else if isFuture then ''FUTURE'' else ''EQUITY'')),
          pl_underlying = or_undefined (toUpperCase underlying),
          pl_expiry = or_undefined expiry,
          pl_strike = strike,
          pl_option_type = or_undefined (toUpperCase right),
          pl_multiplier = (if pick ''multiplier'' \<noteq> [] then Some (parseNumber (pick ''multiplier''))
                           else None),
          pl_entry_date = (if re_test iso_re entryDateRaw then Some entryDateRaw else None),
          pl_sector = or_undefined (pick ''sector''),
          pl_strategy = or_undefined (pick ''strategy'')\<rparr>)"

section \<open>Imports\<close>

text \<open>
  A request to the API: a file upload to an endpoint with its \<open>account\<close> query parameter
  (if any), the bulk position post (positions and account), the NAV text post (account
  and text), and the read of the benchmark start. A reply is the fields of
  \<open>resp.data\<close>, as they are shown, or a failure with its \<open>response.data.detail\<close> and
  its \<open>message\<close>.
\<close>

datatype request =
    PostFile string "string option" string
  | PostBulk "payload list" string
  | PostNavText string string
  | GetBenchmark

datatype reply = Ok "(string \<times> string) list" | Err "string option" "string option"

text \<open>What an import does, in order: state setters, requests, and the refresh calls.\<close>

datatype effect =
    SetCsvError string
  | SetNavPasteError string
  | SetToast string
  | Call request
  | FetchAccounts
  | RefreshAll
  | FetchNav
  | SetBenchStart string

text \<open>
  \<open>requireAccount\<close>: with no account or with \<open>ALL\<close> selected it reports through
  \<open>setError\<close> and \<open>notify\<close> and returns null (\<open>Inl\<close>, with these effects).
\<close>

definition requireAccount ::
  "string \<Rightarrow> string \<Rightarrow> (string \<Rightarrow> effect) \<Rightarrow> effect list + string" where
  "requireAccount accountId action setError =
     (if accountId = [] \<or> accountId = ''ALL'' then
        (let msg = ''Select a specific account (not ALL) to '' @ action @ ''.''
         in Inl [setError msg, SetToast msg])
      else Inr accountId)"

text \<open>\<open>err?.response?.data?.detail ?? err?.message ?? d\<close>\<close>

definition detail_or_message :: "string option \<Rightarrow> string option \<Rightarrow> string \<Rightarrow> string" where
  "detail_or_message detail message d =
     (case detail of Some x \<Rightarrow> x | None \<Rightarrow> (case message of Some m \<Rightarrow> m | None \<Rightarrow> d))"

text \<open>\<open>resp.data?.a ?? resp.data?.b ?? 0\<close>, as the template string shows it.\<close>

definition field_or_0 :: "(string \<times> string) list \<Rightarrow> string list \<Rightarrow> string" where
  "field_or_0 data ks = (case List.map_filter (map_of data) ks of v # _ \<Rightarrow> v | [] \<Rightarrow> ''0'')"

text \<open>The upload shared by the balances, positions and transactions reports.\<close>

definition report_failed :: "string option \<Rightarrow> string option \<Rightarrow> effect list" where
  "report_failed detail message =
     (let d = detail_or_message detail message ''CSV import failed'' in [SetCsvError d, SetToast d])"

text \<open>The four tests of \<open>importCsvFile\<close> on the rows of the file.\<close>

definition headerRow_of :: "string list list \<Rightarrow> string list" where
  "headerRow_of rawRows = map (\<lambda>c. trim (toLowerCase (stripBom c))) (hd rawRows)"

definition isTransactionsCsv :: "string list list \<Rightarrow> bool" where
  "isTransactionsCsv rawRows =
     (let headerRow = headerRow_of rawRows in
      ''action'' \<in> set headerRow \<and> ''amount'' \<in> set headerRow \<and> ''quantity'' \<in> set headerRow \<and>
      list_ex (\<lambda>c. str_includes c ''fees'') headerRow)"

definition firstRows_of :: "string list list \<Rightarrow> string list" where
  "firstRows_of rawRows =
     map (\<lambda>row. join '' '' (map (\<lambda>c. toLowerCase (stripBom c)) row)) (take 20 rawRows)"

definition isBalancesReport :: "string list list \<Rightarrow> bool" where
  "isBalancesReport rawRows =
     (list_ex (\<lambda>rowText. str_includes rowText ''balances for all-accounts'' \<or>
                          str_includes rowText ''balances for all accounts'') (firstRows_of rawRows) \<or>
      list_ex (\<lambda>rowText. str_includes rowText ''total accounts value'' \<and>
                          str_includes rowText ''cash & cash investments total'') (firstRows_of rawRows))"

definition isAccountStatement :: "string list list \<Rightarrow> bool" where
  "isAccountStatement rawRows =
     list_ex (\<lambda>rowText. str_includes rowText ''account statement'') (firstRows_of rawRows)"

definition isPositionsReport :: "string list list \<Rightarrow> bool" where
  "isPositionsReport rawRows =
     list_ex (\<lambda>rowText. str_includes rowText ''positions for'' \<or> str_includes rowText ''custaccs'')
       (firstRows_of rawRows)"

definition importCsvFile :: "(request \<Rightarrow> reply) \<Rightarrow> string \<Rightarrow> string \<Rightarrow> effect list" where
  "importCsvFile api accountId text =
     SetCsvError [] #
     (let rawRows = parseCsvRows text in
      if rawRows = [] then [SetCsvError ''CSV file is empty.'']
      else if isBalancesReport rawRows then
        SetToast ''Importing balances CSV...'' #
        Call (PostFile ''/admin/import-balances'' None text) #
        (case api (PostFile ''/admin/import-balances'' None text) of
           Ok data \<Rightarrow>
             [FetchAccounts, RefreshAll,
              SetToast (''Imported balances for '' @ field_or_0 data [''accounts_updated''] @ '' accounts.'')]
         | Err detail message \<Rightarrow> report_failed detail message)
      else if isPositionsReport rawRows then
        (case requireAccount accountId ''import positions CSV'' SetCsvError of
           Inl es \<Rightarrow> es
         | Inr account \<Rightarrow>
             SetToast ''Importing positions CSV...'' #
             Call (PostFile ''/admin/import-positions'' (Some account) text) #
             (case api (PostFile ''/admin/import-positions'' (Some account) text) of
                Ok data \<Rightarrow>
                  [FetchAccounts, RefreshAll, FetchNav,
                   SetToast (''Imported positions from Schwab CSV ('' @
                             field_or_0 data [''positions_count'', ''count''] @ '' rows).'')]
              | Err detail message \<Rightarrow> report_failed detail message))
      else if isTransactionsCsv rawRows then
        (case requireAccount accountId ''import transactions CSV'' SetCsvError of
           Inl es \<Rightarrow> es
         | Inr account \<Rightarrow>
             SetToast ''Importing transactions CSV...'' #
             Call (PostFile ''/admin/import-transactions'' (Some account) text) #
             (case api (PostFile ''/admin/import-transactions'' (Some account) text) of
                Ok data \<Rightarrow>
                  [FetchAccounts, RefreshAll, FetchNav, Call GetBenchmark] @
                  (case api GetBenchmark of
                     Ok b \<Rightarrow> (case map_of b ''bench_start'' of
                                Some v \<Rightarrow> if v \<noteq> [] then [SetBenchStart v] else []
                              | None \<Rightarrow> [])
                   | Err _ _ \<Rightarrow> []) @
                  [SetToast (''Imported transactions ('' @ field_or_0 data [''trades_created''] @
                             '' trades).'')]
              | Err detail message \<Rightarrow> report_failed detail message))
      else if isAccountStatement rawRows then
        (case requireAccount accountId ''import positions from account statement'' SetCsvError of
           Inl es \<Rightarrow> es
         | Inr account \<Rightarrow>
             (let filtered = filter usable (parseAccountStatementPositions rawRows) in
              if filtered = [] then [SetCsvError ''Account statement positions not found.'']
              else
                Call (PostBulk filtered account) #
                (case api (PostBulk filtered account) of
                   Ok data \<Rightarrow>
                     [FetchAccounts, RefreshAll,
                      SetToast (''Imported '' @ nat_toString (length filtered) @ '' positions.'')]
                 | Err detail message \<Rightarrow>
                     [SetCsvError (detail_or_message detail None ''CSV import failed'')])))
      else
        (let rows = parseCsv text in
         if rows = [] then [SetCsvError ''CSV file is empty.'']
         else
           let filtered = filter usable (map generic_position rows) in
           if filtered = [] then [SetCsvError ''CSV requires symbol and qty.'']
           else
             (case requireAccount accountId ''import positions CSV'' SetCsvError of
                Inl es \<Rightarrow> es
              | Inr account \<Rightarrow>
                  Call (PostBulk filtered account) #
                  (case api (PostBulk filtered account) of
                     Ok data \<Rightarrow>
                       [RefreshAll,
                        SetToast (''Imported '' @ nat_toString (length filtered) @ '' positions.'')]
                   | Err detail message \<Rightarrow>
                       [SetCsvError (detail_or_message detail None ''CSV import failed'')]))))"

definition importNavText :: "(request \<Rightarrow> reply) \<Rightarrow> string \<Rightarrow> string \<Rightarrow> effect list" where
  "importNavText api accountId navPasteText =
     SetNavPasteError [] #
     (case requireAccount accountId ''import NAV history'' SetNavPasteError of
        Inl es \<Rightarrow> es
      | Inr account \<Rightarrow>
          if trim navPasteText = [] then
            [SetNavPasteError ''Paste NAV lines first.'', SetToast ''Paste NAV lines first.'']
          else
            SetToast ''Importing NAV history...'' #
            Call (PostNavText account navPasteText) #
            (case api (PostNavText account navPasteText) of
               Ok data \<Rightarrow>
                 [FetchAccounts, RefreshAll, FetchNav,
                  SetToast (''Imported NAV history ('' @ field_or_0 data [''count''] @ '' rows).'')]
             | Err detail message \<Rightarrow>
                 (let d = detail_or_message detail message ''NAV import failed''
                  in [SetNavPasteError d, SetToast d])))"

section \<open>NAV snapshots\<close>

text \<open>
  Modelled from the spec: \<open>store_nav_snapshot\<close> of \<open>backend/app/services/legacy_engine.py\<close>
  is not among the sources; the repository documents its write (the bench value is
  \<open>float(bench) if bench is not None and bench > 0 else None\<close>, written with
  \<open>INSERT OR REPLACE\<close>). A snapshot is keyed by account and date; \<open>None\<close> is NULL.
\<close>

record snapshot =
  snap_nav :: jsnum
  snap_bench :: "jsnum option"

type_synonym nav_table = "string \<times> string \<Rightarrow> snapshot option"

definition bench_val :: "jsnum option \<Rightarrow> jsnum option" where
  "bench_val bench = (case bench of None \<Rightarrow> None | Some b \<Rightarrow> if js_lt (Fin 0) b then Some b else None)"

definition store_nav_snapshot ::
  "nav_table \<Rightarrow> string \<Rightarrow> string \<Rightarrow> jsnum \<Rightarrow> jsnum option \<Rightarrow> nav_table" where
  "store_nav_snapshot db account date nav bench =
     db((account, date) \<mapsto> \<lparr>snap_nav = nav, snap_bench = bench_val bench\<rparr>)"

section \<open>Observing an import\<close>

text \<open>An effect that only sets an error or a toast message.\<close>

fun is_message :: "effect \<Rightarrow> bool" where
  "is_message (SetCsvError m) = True"
| "is_message (SetNavPasteError m) = True"
| "is_message (SetToast m) = True"
| "is_message _ = False"

text \<open>
  The rows of a section, as the inner loop of \<open>parseAccountStatementPositions\<close> sorts them:
  a row that ends the section (a blank row, a section header, a total row), and a row that
  is kept (it has a symbol and a finite quantity other than zero).
\<close>

definition section_end :: "string list \<Rightarrow> bool" where
  "section_end row =
     (blank_row row \<or> isSectionHeader row \<or>
      str_includes (toLowerCase (trim (cell row 1))) ''total'')"

definition kept_row :: "columns \<Rightarrow> string list \<Rightarrow> bool" where
  "kept_row cs row =
     (trim (cell row (symbolIdx cs)) \<noteq> [] \<and> isFinite (parseNumber (cell row (qtyIdx cs))) \<and>
      parseNumber (cell row (qtyIdx cs)) \<noteq> Fin 0)"

text \<open>
  Row \<open>i\<close> starts a section of positions: the row below it is a header row with a symbol
  column, a quantity column and a price column, and the name in row \<open>i\<close> is that of a
  position section.
\<close>

definition starts_section :: "string list list \<Rightarrow> nat \<Rightarrow> bool" where
  "starts_section rows i =
     (let header = map normalizeHeader (rows ! (i + 1)) in
      ''symbol'' \<in> set header \<and> ''qty'' \<in> set header \<and>
      (''mark'' \<in> set header \<or> ''last'' \<in> set header \<or> ''trade_price'' \<in> set header \<or>
       ''price'' \<in> set header) \<and>
      isPositionSection (toUpperCase (trim (cell (rows ! i) 0))))"

text \<open>The position that the inner loop pushes for a kept row, with the asset class so far.\<close>

definition row_position :: "columns \<Rightarrow> string \<Rightarrow> string list \<Rightarrow> payload" where
  "row_position cs assetClass row =
     fst (statement_position cs assetClass row (trim (cell row (symbolIdx cs)))
            (parseNumber (cell row (qtyIdx cs))))"

text \<open>The bulk post of an import: none when no position is left.\<close>

definition bulk :: "payload list \<Rightarrow> string \<Rightarrow> request list" where
  "bulk ps account = (if ps = [] then [] else [PostBulk ps account])"

text \<open>The requests among the effects, in order.\<close>

fun calls :: "effect list \<Rightarrow> request list" where
  "calls [] = []"
| "calls (Call r # es) = r # calls es"
| "calls (e # es) = calls es"

section \<open>Sample inputs\<close>

text \<open>The two legs of a call spread: long one call at 5, short one call at 2.\<close>

definition long_call :: position where
  "long_call =
     \<lparr>p_symbol = ''AAPL260117C00100000'', p_asset_class = Some ''OPTION'',
      p_expiry = Some ''2026-01-17'', p_strike = Some (Fin 100), p_option_type = Some ''CALL'',
      p_multiplier = Some (Fin 100), p_qty = Fin 1, p_price = Fin 5, p_market_value = Fin 500,
      p_avg_cost = None, p_day_pnl = None, p_total_pnl = None, p_day_pnl_pct = None,
      p_total_pnl_pct = None, p_strategy = None, p_strategy_id = Some ''S1'',
      p_strategy_name = None\<rparr>"

definition short_call :: position where
  "short_call =
     \<lparr>p_symbol = ''AAPL260117C00105000'', p_asset_class = Some ''OPTION'',
      p_expiry = Some ''2026-01-17'', p_strike = Some (Fin 105), p_option_type = Some ''CALL'',
      p_multiplier = Some (Fin 100), p_qty = Fin (- 1), p_price = Fin 2,
      p_market_value = Fin (- 200), p_avg_cost = None, p_day_pnl = None, p_total_pnl = None,
      p_day_pnl_pct = None, p_total_pnl_pct = None, p_strategy = None,
      p_strategy_id = Some ''S1'', p_strategy_name = None\<rparr>"

text \<open>Files: a transactions header followed by a row with a marker phrase, a balances
  report, and a generic CSV with one good row and four bad ones.\<close>

definition transactions_header :: string where
  "transactions_header = ''Date,Action,Symbol,Quantity,Price,Fees & Comm,Amount''"

definition transactions_with_positions_marker :: string where
  "transactions_with_positions_marker =
     transactions_header @ [CHR 0x0A] @ ''Positions for account IRA,,,,,,''"

definition transactions_with_statement_marker :: string where
  "transactions_with_statement_marker =
     transactions_header @ [CHR 0x0A] @ ''Account Statement,,,,,,''"

definition balances_file :: string where
  "balances_file = ''Balances for All-Accounts'' @ [CHR 0x0A] @ ''Account,Cash''"

definition generic_file :: string where
  "generic_file = ''symbol,qty'' @ [CHR 0x0A] @ ''AAPL,10'' @ [CHR 0x0A] @ ''MSFT,0'' @
     [CHR 0x0A] @ '',5'' @ [CHR 0x0A] @ ''TSLA,abc'' @ [CHR 0x0A] @ ''NFLX,1e400''"

text \<open>
  An account statement with one section: a good row, four bad rows (a zero quantity, no
  symbol, a quantity that is not a number, a quantity beyond the range of doubles), and a
  second good row, whose quantity follows a no-break space.
\<close>

definition statement_file :: string where
  "statement_file = ''Account Statement'' @ [CHR 0x0A] @ ''Equities'' @ [CHR 0x0A] @
     ''Symbol,Qty,Mark'' @ [CHR 0x0A] @ ''AAPL,10,150'' @ [CHR 0x0A] @ ''MSFT,0,300'' @
     [CHR 0x0A] @ '',5,1'' @ [CHR 0x0A] @ ''TSLA,abc,2'' @ [CHR 0x0A] @ ''GOOG,1e400,3'' @
     [CHR 0x0A] @ ''IBM,'' @ [CHR 0xA0] @ ''3,100''"

definition equity_columns :: columns where
  "equity_columns =
     \<lparr>symbolIdx = 0, descIdx = None, qtyIdx = 1, tradeIdx = None, markIdx = Some 2,
      lastIdx = None, priceIdx = None, underlyingIdx = None, expiryIdx = None,
      strikeIdx = None, rightIdx = None\<rparr>"

definition equity_position :: "string \<Rightarrow> real \<Rightarrow> real \<Rightarrow> payload" where
  "equity_position symbol qty mark =
     \<lparr>pl_instrument_id = None, pl_symbol = symbol, pl_qty = Fin qty, pl_price = Fin mark,
      pl_avg_cost = Some (Fin mark), pl_asset_class = ''EQUITY'', pl_underlying = None,
      pl_expiry = None, pl_strike = None, pl_option_type = None, pl_multiplier = None,
      pl_entry_date = None, pl_sector = None, pl_strategy = None\<rparr>"

text \<open>
  A row of an options section with the columns Symbol, Qty, Mark, Underlying, Expiry,
  Strike and Put/Call, and a strike of \<open>-5\<close>.
\<close>

definition option_columns :: columns where
  "option_columns =
     \<lparr>symbolIdx = 0, descIdx = None, qtyIdx = 1, tradeIdx = None, markIdx = Some 2,
      lastIdx = None, priceIdx = None, underlyingIdx = Some 3, expiryIdx = Some 4,
      strikeIdx = Some 5, rightIdx = Some 6\<rparr>"

definition negative_strike_row :: "string list" where
  "negative_strike_row = [''X1'', ''1'', ''2'', ''AAPL'', ''2026-01-17'', ''-5'', ''C'']"

section \<open>Evaluation rules\<close>

text \<open>The unfolding rules with which the simplifier runs the model on concrete inputs.\<close>

lemma replicate_num: "replicate (numeral k) x = x # replicate (pred_numeral k) x"
  by (simp add: numeral_eq_Suc)

lemmas str_eval = toUpperCase_def toLowerCase_def trim_def is_space_def upper_char_def
  lower_char_def lower_letters_def upper_letters_def decimal_digits_def is_lower_def is_upper_def is_digit_def
  is_word_def code_def padStart_def slice_def digit_char_def digit_val_def digits_value_def
  nat_toString.simps strip_zeros_def big_toString_def int_toString_def replicate_num
  is_upper_alnum_def Let_def

lemmas re_eval = re_match_def re_test_def advance_def word_at_def next_char_def chr_def digits_def

lemmas desc_eval = parseOptionDescription_def finish_desc_def given_def month_expiry_def
  right_letter_def decimal_Number_def literal_value_def monthMap_def numericMatch_re_def monthMatch_re_def
  numericNoUnderlying_re_def monthNoUnderlying_re_def month_tail_def numeric_tail_def
  underlying_re_def right_re_def strike_re_def numeric_date_def slash_or_dash_def opt_qty_def
  spaces_def some_digits_def normalizeExpiryInput_def mdy_re_def iso_re_def buildOsiSymbol_def

lemmas csv_eval = parseCsv_def cell_def normalizeHeader_def strip_underscores_def
  is_lower_alnum_def object_keys_def is_array_index_def stripBom_def

lemmas num_eval = parseNumber_def js_Number_def unsigned_Number_def exponent_of_def
  radix_Number_def literal_value_def hex_val_def parens_re_def

lemmas detect_eval = isBalancesReport_def isPositionsReport_def isTransactionsCsv_def
  isAccountStatement_def firstRows_of_def headerRow_of_def join_def stripBom_def

section \<open>Contract symbol codec: properties\<close>

lemma toUpperCase_Nil_iff: "toUpperCase s = [] \<longleftrightarrow> s = []"
  by (simp add: toUpperCase_def)

lemma upper_char_P: "upper_char c = CHR ''P'' \<longleftrightarrow> c = CHR ''P'' \<or> c = CHR ''p''"
  by (auto simp: upper_char_def lower_letters_def upper_letters_def split: if_splits)

lemma toUpperCase_P: "toUpperCase r = ''P'' \<longleftrightarrow> r = ''P'' \<or> r = ''p''"
  by (cases r) (auto simp: toUpperCase_def upper_char_P)

text \<open>
  What \<open>buildOsiSymbol\<close> tests: it returns the empty string exactly when the trimmed
  underlying is empty, the trimmed expiry is empty, the right is empty, the strike is not
  a finite number, or the expiry without its dashes and its first two characters is not
  six characters long. The sign of the strike plays no part.
\<close>

lemma buildOsiSymbol_fails_iff:
  "(buildOsiSymbol underlying expiry right strike = []) =
   (trim underlying = [] \<or> trim expiry = [] \<or> right = [] \<or> \<not> isFinite strike \<or>
    length (drop 2 (filter (\<lambda>c. c \<noteq> CHR ''-'') (trim expiry))) \<noteq> 6)"
  by (auto simp: buildOsiSymbol_def Let_def toUpperCase_Nil_iff)

subsection \<open>A row with a negative strike\<close>

lemma nums_o: "parseNumber ''1'' = Fin 1" "parseNumber ''2'' = Fin 2" "parseNumber ''-5'' = Fin (- 5)"
  by (simp_all add: num_eval re_eval str_eval)

lemma cells_o:
  "opt_cell negative_strike_row (underlyingIdx option_columns) = ''AAPL''"
  "opt_cell negative_strike_row (expiryIdx option_columns) = ''2026-01-17''"
  "opt_cell negative_strike_row (strikeIdx option_columns) = ''-5''"
  "opt_cell negative_strike_row (rightIdx option_columns) = ''C''"
  "opt_cell negative_strike_row (descIdx option_columns) = []"
  "trim (cell negative_strike_row (symbolIdx option_columns)) = ''X1''"
  "cell negative_strike_row (qtyIdx option_columns) = ''1''"
  by (simp_all add: opt_cell_def option_columns_def negative_strike_row_def cell_def trim_def is_space_def)

lemma plain_o:
  "pl_symbol (plain_position option_columns ac negative_strike_row ''X1'' q) = ''X1''"
  by (simp add: plain_position_def Let_def str_eval)

lemma osi_X1: "parseOsiSymbol ''X1'' = None"
  by (simp add: parseOsiSymbol_def osi_re_def re_eval str_eval)

lemma expiry_o: "normalizeExpiryInput ''2026-01-17'' = ''2026-01-17''"
  by (simp add: normalizeExpiryInput_def iso_re_def re_eval str_eval)

lemma build_neg: "buildOsiSymbol ''AAPL'' ''2026-01-17'' ''C'' (Fin (- 5)) = ''AAPL260117C000-5000''"
  by (simp add: buildOsiSymbol_def str_eval)

lemma columns_o:
  "pl_symbol (with_columns option_columns negative_strike_row p) = ''AAPL260117C000-5000''"
  by (simp add: with_columns_def Let_def cells_o expiry_o nums_o right_letter_def build_neg toUpperCase_def upper_char_def lower_letters_def upper_letters_def)

lemma desc_o:
  "parseOptionDescription [] fb = None"
  "parseOptionDescription ''X1'' (Some ''AAPL'') = None"
  "parseOptionDescription ''X1 1 2 AAPL 2026-01-17 -5 C'' (Some ''AAPL'') = None"
  by (simp_all add: desc_eval re_eval str_eval)

lemma text_o:
  "join '' '' (filter (\<lambda>c. trim c \<noteq> []) negative_strike_row) = ''X1 1 2 AAPL 2026-01-17 -5 C''"
  by (simp add: negative_strike_row_def join_def trim_def is_space_def)

lemma described_o: "described option_columns negative_strike_row ''X1'' smb = None"
  by (simp add: described_def Let_def cells_o s_or_def desc_o text_o)


text \<open>
  C8: \<open>buildOsiSymbol\<close> is to fail for every strike that is zero or negative. It does not:
  it tests the strike with \<open>Number.isFinite\<close> only, and of its callers only the trade
  ticket tests \<open>strike > 0\<close> first. A strike of 0 builds \<open>AAPL260117C00000000\<close>; a strike
  of \<open>-5\<close> builds \<open>AAPL260117C000-5000\<close>, which \<open>parseOsiSymbol\<close> rejects; and the row of an
  account statement with \<open>-5\<close> in its strike column is pushed with that symbol.
\<close>

theorem buildOsiSymbol_nonpositive_strike:
  "buildOsiSymbol ''AAPL'' ''2026-01-17'' ''C'' (Fin 0) = ''AAPL260117C00000000'' \<and>
   buildOsiSymbol ''AAPL'' ''2026-01-17'' ''C'' (Fin (- 5)) = ''AAPL260117C000-5000'' \<and>
   parseOsiSymbol ''AAPL260117C000-5000'' = None \<and>
   pl_symbol (row_position option_columns ''OPTION'' negative_strike_row) = ''AAPL260117C000-5000''"
proof -
  have z: "buildOsiSymbol ''AAPL'' ''2026-01-17'' ''C'' (Fin 0) = ''AAPL260117C00000000''"
    by (simp add: buildOsiSymbol_def str_eval)
  have p: "parseOsiSymbol ''AAPL260117C000-5000'' = None"
    by (simp add: parseOsiSymbol_def osi_re_def re_eval str_eval)
  have r: "pl_symbol (row_position option_columns ''OPTION'' negative_strike_row) = ''AAPL260117C000-5000''"
    by (simp add: row_position_def statement_position_def Let_def cells_o nums_o plain_o osi_X1
        described_o columns_o)
  show ?thesis using z build_neg p r by simp
qed

text \<open>
  C10: in a symbol that \<open>buildOsiSymbol\<close> builds, the right (the character after the
  underlying and the six digits of the date) is \<open>P\<close> only when the argument is the single
  letter \<open>P\<close> or \<open>p\<close>; for any other argument, the word \<open>PUT\<close> included, it is \<open>C\<close>.
\<close>

theorem buildOsiSymbol_right_letter:
  "buildOsiSymbol underlying expiry right strike \<noteq> [] \<Longrightarrow>
   buildOsiSymbol underlying expiry right strike ! (length (toUpperCase (trim underlying)) + 6) =
     (if right = ''P'' \<or> right = ''p'' then CHR ''P'' else CHR ''C'')"
  by (auto simp: buildOsiSymbol_def Let_def toUpperCase_P nth_append split: if_splits)

theorem buildOsiSymbol_right_letter_witness:
  "buildOsiSymbol ''AAPL'' ''2026-01-17'' ''PUT'' (Fin 150) = ''AAPL260117C00150000'' \<and>
   buildOsiSymbol ''AAPL'' ''2026-01-17'' ''PUT'' (Fin 150) ! 10 = CHR ''C'' \<and>
   buildOsiSymbol ''AAPL'' ''2026-01-17'' ''p'' (Fin 150) ! 10 = CHR ''P''"
proof -
  have e: "buildOsiSymbol ''AAPL'' ''2026-01-17'' ''PUT'' (Fin 150) = ''AAPL260117C00150000''"
    by (simp add: buildOsiSymbol_def str_eval)
  have n: "buildOsiSymbol ''AAPL'' ''2026-01-17'' ''p'' (Fin 150) \<noteq> []"
    by (simp add: buildOsiSymbol_def str_eval)
  have l: "length (toUpperCase (trim ''AAPL'')) + 6 = 10"
    by (simp add: str_eval)
  show ?thesis
    using e buildOsiSymbol_right_letter [of "''AAPL''" "''2026-01-17''" "''PUT''" "Fin 150"]
      buildOsiSymbol_right_letter [OF n] l
    by simp
qed

section \<open>Option descriptions: properties\<close>

text \<open>
  C7: a description with its underlying parses without a fallback. A description that
  starts with a quantity and has no underlying, \<open>3 01/17/2026 150 CALL\<close>, is matched by
  the first pattern with the quantity in the place of the underlying: the result has the
  underlying \<open>3\<close> whether a fallback is given or not, so the fallback is not used and the
  parse does not fail without one.
\<close>

theorem parseOptionDescription_quantity_read_as_underlying:
  "parseOptionDescription ''3 AAPL 01/17/2026 150 CALL'' None =
     Some \<lparr>od_symbol = ''AAPL260117C00150000'', od_underlying = ''AAPL'',
            od_expiry = ''2026-01-17'', od_strike = Fin 150, od_option_type = ''CALL''\<rparr> \<and>
   parseOptionDescription ''3 01/17/2026 150 CALL'' (Some ''AAPL'') =
     Some \<lparr>od_symbol = ''3260117C00150000'', od_underlying = ''3'',
            od_expiry = ''2026-01-17'', od_strike = Fin 150, od_option_type = ''CALL''\<rparr> \<and>
   parseOptionDescription ''3 01/17/2026 150 CALL'' None =
     Some \<lparr>od_symbol = ''3260117C00150000'', od_underlying = ''3'',
            od_expiry = ''2026-01-17'', od_strike = Fin 150, od_option_type = ''CALL''\<rparr>"
  by (simp add: str_eval re_eval desc_eval)

section \<open>NAV snapshots: properties\<close>

text \<open>
  C4: after \<open>store_nav_snapshot\<close> the snapshot of the account and date has the given nav;
  its bench is NULL when no bench is given, and for a given bench it is that bench when
  it is strictly positive and NULL otherwise. The nav is never stored as the bench.
\<close>

theorem store_nav_snapshot_bench:
  "\<exists>s. store_nav_snapshot db account date nav bench (account, date) = Some s \<and>
        snap_nav s = nav \<and>
        (bench = None \<longrightarrow> snap_bench s = None) \<and>
        (\<forall>b. bench = Some b \<longrightarrow> snap_bench s = (if js_lt (Fin 0) b then Some b else None))"
  by (simp add: store_nav_snapshot_def bench_val_def)

theorem store_nav_snapshot_bench_witness:
  "map_option snap_bench
     (store_nav_snapshot Map.empty ''IRA'' ''2026-01-02'' (Fin 1000) None
        (''IRA'', ''2026-01-02'')) = Some None \<and>
   map_option snap_bench
     (store_nav_snapshot Map.empty ''IRA'' ''2026-01-02'' (Fin 1000) (Some (Fin 0))
        (''IRA'', ''2026-01-02'')) = Some None \<and>
   map_option snap_bench
     (store_nav_snapshot Map.empty ''IRA'' ''2026-01-02'' (Fin 1000) (Some (Fin 4500))
        (''IRA'', ''2026-01-02'')) = Some (Some (Fin 4500))"
  using store_nav_snapshot_bench [of Map.empty "''IRA''" "''2026-01-02''" "Fin 1000" None]
        store_nav_snapshot_bench [of Map.empty "''IRA''" "''2026-01-02''" "Fin 1000" "Some (Fin 0)"]
        store_nav_snapshot_bench [of Map.empty "''IRA''" "''2026-01-02''" "Fin 1000" "Some (Fin 4500)"]
  by auto

section \<open>Strategy netting: properties\<close>

text \<open>
  C3: two option legs of one strategy, the first long 1 at price 5 and the second short
  1 at price 2, both with multiplier 100, are shown as a summary row with 1 unit, net
  price 3 and side LONG, counting 2 legs.
\<close>

theorem two_leg_spread_nets:
  assumes "is_grouped l1" "is_grouped l2"
    and "strategyId_of l1 = sid" "strategyId_of l2 = sid"
    and "p_qty l1 = Fin 1" "p_price l1 = Fin 5" "p_multiplier l1 = Some (Fin 100)"
    and "p_qty l2 = Fin (- 1)" "p_price l2 = Fin 2" "p_multiplier l2 = Some (Fin 100)"
  shows "\<exists>s rest. positionsDisplay [l1, l2] collapsedStrategies [] = Summary s ''LONG'' 2 # rest \<and>
           p_qty s = Fin 1 \<and> p_price s = Fin 3 \<and> p_strategy_id s = Some sid"
  using assms
  by (simp add: positionsDisplay_def emit_def summarize_def units_of_def leg_step_def
      group_step_def strategy_filtered_def Math_min_def js_min_def num_or_def js_or_def Let_def)

theorem two_leg_spread_nets_witness:
  "is_grouped long_call \<and> is_grouped short_call \<and>
   (\<exists>s rest. positionsDisplay [long_call, short_call] (\<lambda>_. False) [] = Summary s ''LONG'' 2 # rest \<and>
      p_qty s = Fin 1 \<and> p_price s = Fin 3 \<and> p_strategy_id s = Some ''S1'')"
proof -
  have g: "is_grouped long_call" "is_grouped short_call"
    by (simp_all add: long_call_def short_call_def is_grouped_def strategyId_of_def s_or_def
        str_of_def str_eval)
  have s: "strategyId_of long_call = ''S1''" "strategyId_of short_call = ''S1''"
    by (simp_all add: long_call_def short_call_def strategyId_of_def s_or_def str_of_def)
  have l: "p_qty long_call = Fin 1" "p_price long_call = Fin 5"
      "p_multiplier long_call = Some (Fin 100)"
    by (simp_all add: long_call_def)
  have r: "p_qty short_call = Fin (- 1)" "p_price short_call = Fin 2"
      "p_multiplier short_call = Some (Fin 100)"
    by (simp_all add: short_call_def)
  show ?thesis
    using g two_leg_spread_nets [OF g s l r, of "\<lambda>_. False"] by simp
qed

text \<open>
  After the first loop, the map holds for each strategy id the option rows that carry it,
  in their order, and the order list holds the other rows and the ids met.
\<close>

lemma group_fold:
  "(\<forall>k. fst (foldl group_step (Map.empty, []) xs) k =
        (if filter (\<lambda>r. is_grouped r \<and> strategyId_of r = k) xs = [] then None
         else Some (filter (\<lambda>r. is_grouped r \<and> strategyId_of r = k) xs))) \<and>
   set (snd (foldl group_step (Map.empty, []) xs)) =
     OrderRow ` {r \<in> set xs. \<not> is_grouped r} \<union> OrderGroup ` strategyId_of ` {r \<in> set xs. is_grouped r}"
proof (induction xs rule: rev_induct)
  case Nil
  then show ?case by simp
next
  case (snoc x xs)
  obtain g ord where st: "foldl group_step (Map.empty, []) xs = (g, ord)"
    by (cases "foldl group_step (Map.empty, []) xs")
  from snoc st have g: "\<And>k. g k =
        (if filter (\<lambda>r. is_grouped r \<and> strategyId_of r = k) xs = [] then None
         else Some (filter (\<lambda>r. is_grouped r \<and> strategyId_of r = k) xs))"
    and ord: "set ord = OrderRow ` {r \<in> set xs. \<not> is_grouped r} \<union>
                OrderGroup ` strategyId_of ` {r \<in> set xs. is_grouped r}"
    by simp_all
  have step: "foldl group_step (Map.empty, []) (xs @ [x]) = group_step (g, ord) x"
    by (simp add: st)
  show ?case
  proof (cases "is_grouped x")
    case False
    then have val: "group_step (g, ord) x = (g, ord @ [OrderRow x])"
      by (simp add: group_step_def Let_def)
    from False show ?thesis
      unfolding step val by (auto simp: g ord)
  next
    case True
    show ?thesis
    proof (cases "g (strategyId_of x)")
      case None
      with True have val: "group_step (g, ord) x =
          (g(strategyId_of x \<mapsto> [x]), ord @ [OrderGroup (strategyId_of x)])"
        by (simp add: group_step_def Let_def)
      from None have empty: "filter (\<lambda>r. is_grouped r \<and> strategyId_of r = strategyId_of x) xs = []"
        using g [of "strategyId_of x"] by (simp split: if_splits)
      from True empty show ?thesis
        unfolding step val by (auto simp: g ord)
    next
      case (Some legs)
      with True have val: "group_step (g, ord) x = (g(strategyId_of x \<mapsto> legs @ [x]), ord)"
        by (simp add: group_step_def Let_def)
      from Some have legs: "legs = filter (\<lambda>r. is_grouped r \<and> strategyId_of r = strategyId_of x) xs"
        and nonempty: "filter (\<lambda>r. is_grouped r \<and> strategyId_of r = strategyId_of x) xs \<noteq> []"
        using g [of "strategyId_of x"] by (simp_all split: if_splits)
      from nonempty obtain r where "r \<in> set xs" "is_grouped r" "strategyId_of r = strategyId_of x"
        by (auto simp: filter_empty_conv)
      then have "strategyId_of x \<in> strategyId_of ` {r \<in> set xs. is_grouped r}"
        by (metis (mono_tags, lifting) image_eqI mem_Collect_eq)
      with True legs nonempty show ?thesis
        unfolding step val by (auto simp: g ord)
    qed
  qed
qed

lemma summarize_rows:
  "Summary p side n \<in> set (summarize c k legs) \<Longrightarrow> p_strategy_id p = Some k"
  "Leg p \<in> set (summarize c k legs) \<Longrightarrow> p_strategy_id p = Some k"
  by (auto simp: summarize_def Let_def split: if_splits)

lemma positionsDisplay_alt:
  "positionsDisplay positions c f =
     concat (map (emit c (fst (foldl group_step (Map.empty, []) (strategy_filtered f positions))))
                 (snd (foldl group_step (Map.empty, []) (strategy_filtered f positions))))"
  by (auto simp: positionsDisplay_def Let_def strategy_filtered_def)

text \<open>
  C5: when fewer than two of the rows in view are option rows with the strategy id
  \<open>sid\<close>, the display has no summary row and no leg row for \<open>sid\<close>, and each such row is
  in the display as an ordinary row.
\<close>

theorem small_group_passes_through:
  assumes "length (filter (\<lambda>r. is_grouped r \<and> strategyId_of r = sid)
                     (strategy_filtered strategyFilter positions)) < 2"
  shows "(\<forall>p side n. Summary p side n \<in> set (positionsDisplay positions collapsedStrategies strategyFilter)
             \<longrightarrow> p_strategy_id p \<noteq> Some sid) \<and>
         (\<forall>p. Leg p \<in> set (positionsDisplay positions collapsedStrategies strategyFilter)
             \<longrightarrow> p_strategy_id p \<noteq> Some sid) \<and>
         (\<forall>r \<in> set (filter (\<lambda>r. is_grouped r \<and> strategyId_of r = sid)
                        (strategy_filtered strategyFilter positions)).
             Row r \<in> set (positionsDisplay positions collapsedStrategies strategyFilter))"
proof -
  define xs where "xs = strategy_filtered strategyFilter positions"
  define g where "g = fst (foldl group_step (Map.empty, []) xs)"
  define ord where "ord = snd (foldl group_step (Map.empty, []) xs)"
  define out where "out = positionsDisplay positions collapsedStrategies strategyFilter"
  have out: "out = concat (map (emit collapsedStrategies g) ord)"
    by (simp add: out_def g_def ord_def xs_def positionsDisplay_alt)
  have g: "g k = (if filter (\<lambda>r. is_grouped r \<and> strategyId_of r = k) xs = [] then None
                  else Some (filter (\<lambda>r. is_grouped r \<and> strategyId_of r = k) xs))" for k
    using group_fold [of xs] by (simp add: g_def)
  have ord: "set ord = OrderRow ` {r \<in> set xs. \<not> is_grouped r} \<union>
                OrderGroup ` strategyId_of ` {r \<in> set xs. is_grouped r}"
    using group_fold [of xs] by (simp add: ord_def)
  have small: "length (filter (\<lambda>r. is_grouped r \<and> strategyId_of r = sid) xs) < 2"
    using assms by (simp add: xs_def)
  have legs_sid: "(case g sid of None \<Rightarrow> [] | Some ls \<Rightarrow> ls) =
                    filter (\<lambda>r. is_grouped r \<and> strategyId_of r = sid) xs"
    by (simp add: g)
  have emit_sid: "emit collapsedStrategies g (OrderGroup sid) =
                    map Row (filter (\<lambda>r. is_grouped r \<and> strategyId_of r = sid) xs)"
    using small by (simp add: emit_def legs_sid)
  have no_summary: "p_strategy_id p \<noteq> Some sid" if "Summary p side n \<in> set out" for p side n
  proof
    assume eq: "p_strategy_id p = Some sid"
    from that obtain e where e: "e \<in> set ord" "Summary p side n \<in> set (emit collapsedStrategies g e)"
      by (auto simp: out)
    show False
    proof (cases e)
      case (OrderRow r)
      with e show False by (simp add: emit_def)
    next
      case (OrderGroup k)
      with e have "Summary p side n \<in> set (summarize collapsedStrategies k (case g k of None \<Rightarrow> [] | Some ls \<Rightarrow> ls))"
        by (auto simp: emit_def Let_def split: if_splits)
      then have "k = sid" using eq by (auto dest: summarize_rows)
      with e OrderGroup show False by (auto simp: emit_sid)
    qed
  qed
  have no_leg: "p_strategy_id p \<noteq> Some sid" if "Leg p \<in> set out" for p
  proof
    assume eq: "p_strategy_id p = Some sid"
    from that obtain e where e: "e \<in> set ord" "Leg p \<in> set (emit collapsedStrategies g e)"
      by (auto simp: out)
    show False
    proof (cases e)
      case (OrderRow r)
      with e show False by (simp add: emit_def)
    next
      case (OrderGroup k)
      with e have "Leg p \<in> set (summarize collapsedStrategies k (case g k of None \<Rightarrow> [] | Some ls \<Rightarrow> ls))"
        by (auto simp: emit_def Let_def split: if_splits)
      then have "k = sid" using eq by (auto dest: summarize_rows)
      with e OrderGroup show False by (auto simp: emit_sid)
    qed
  qed
  have rows: "Row r \<in> set out"
    if "r \<in> set (filter (\<lambda>r. is_grouped r \<and> strategyId_of r = sid) xs)" for r
  proof -
    from that have "OrderGroup sid \<in> set ord" by (auto simp: ord)
    moreover from that have "Row r \<in> set (emit collapsedStrategies g (OrderGroup sid))"
      by (simp add: emit_sid)
    ultimately show ?thesis by (auto simp: out)
  qed
  show ?thesis
    using no_summary no_leg rows unfolding out_def xs_def by blast
qed


theorem small_group_passes_through_witness:
  "length (filter (\<lambda>r. is_grouped r \<and> strategyId_of r = ''S1'')
             (strategy_filtered [] [long_call])) < 2 \<and>
   long_call \<in> set (filter (\<lambda>r. is_grouped r \<and> strategyId_of r = ''S1'')
             (strategy_filtered [] [long_call])) \<and>
   Row long_call \<in> set (positionsDisplay [long_call] (\<lambda>_. False) [])"
proof -
  have h: "length (filter (\<lambda>r. is_grouped r \<and> strategyId_of r = ''S1'')
             (strategy_filtered [] [long_call])) < 2"
    by (simp add: strategy_filtered_def)
  have m: "long_call \<in> set (filter (\<lambda>r. is_grouped r \<and> strategyId_of r = ''S1'')
             (strategy_filtered [] [long_call]))"
    by (simp add: long_call_def strategy_filtered_def is_grouped_def strategyId_of_def s_or_def
        str_of_def str_eval)
  from small_group_passes_through [OF h, of "\<lambda>_. False"] m
  have "Row long_call \<in> set (positionsDisplay [long_call] (\<lambda>_. False) [])"
    by blast
  with h m show ?thesis by blast
qed

section \<open>Imports: properties\<close>

lemma rows_tp: "parseCsvRows transactions_with_positions_marker =
   [[''Date'', ''Action'', ''Symbol'', ''Quantity'', ''Price'', ''Fees & Comm'', ''Amount''],
    [''Positions for account IRA'', [], [], [], [], [], []]]"
  by (simp add: transactions_with_positions_marker_def transactions_header_def parseCsvRows_def
      blank_row_def str_eval)

lemma rows_ts: "parseCsvRows transactions_with_statement_marker =
   [[''Date'', ''Action'', ''Symbol'', ''Quantity'', ''Price'', ''Fees & Comm'', ''Amount''],
    [''Account Statement'', [], [], [], [], [], []]]"
  by (simp add: transactions_with_statement_marker_def transactions_header_def parseCsvRows_def
      blank_row_def str_eval)

lemma rows_b: "parseCsvRows balances_file = [[''Balances for All-Accounts''], [''Account'', ''Cash'']]"
  by (simp add: balances_file_def parseCsvRows_def blank_row_def str_eval)

lemma calls_append: "calls (xs @ ys) = calls xs @ calls ys"
  by (induction xs rule: calls.induct) simp_all

subsection \<open>Rows of an account statement\<close>

lemma trim_has_char: "trim s \<noteq> [] \<Longrightarrow> filter (\<lambda>c. \<not> is_space c) (trim s) \<noteq> []"
proof -
  assume n: "trim s \<noteq> []"
  let ?d = "dropWhile is_space (rev (dropWhile is_space s))"
  from n have d: "?d \<noteq> []" by (simp add: trim_def)
  then have "\<not> is_space (hd ?d)" by (rule hd_dropWhile)
  moreover from d have "hd ?d \<in> set (trim s)" by (simp add: trim_def)
  ultimately show ?thesis by (auto simp: filter_empty_conv)
qed

lemma finish_symbol: "finish_desc u e k r = Some d \<Longrightarrow> od_symbol d \<noteq> []"
  by (auto simp: finish_desc_def Let_def split: if_splits)

lemma desc_symbol: "parseOptionDescription raw fb = Some d \<Longrightarrow> od_symbol d \<noteq> []"
  by (auto simp: parseOptionDescription_def Let_def dest: finish_symbol split: if_splits option.splits)

lemma described_symbol: "described cs row rs smb = Some d \<Longrightarrow> od_symbol d \<noteq> []"
  by (auto simp: described_def Let_def dest: desc_symbol split: if_splits)

lemma plain_symbol:
  "pl_symbol (plain_position cs ac row rawSymbol qty) = toUpperCase (filter (\<lambda>c. \<not> is_space c) rawSymbol)"
  by (simp add: plain_position_def Let_def)

lemma columns_symbol: "pl_symbol p \<noteq> [] \<Longrightarrow> pl_symbol (with_columns cs row p) \<noteq> []"
  by (simp add: with_columns_def Let_def)

lemma statement_position_symbol:
  assumes "filter (\<lambda>c. \<not> is_space c) rawSymbol \<noteq> []"
  shows "pl_symbol (fst (statement_position cs ac row rawSymbol qty)) \<noteq> []"
proof -
  have p0: "pl_symbol (plain_position cs ac row rawSymbol qty) \<noteq> []"
    using assms by (simp add: plain_symbol toUpperCase_def)
  have o: "pl_symbol (with_osi p x) = pl_symbol p" for p x
    by (simp add: with_osi_def)
  have d: "pl_symbol (with_desc p y) = od_symbol y" for p y
    by (simp add: with_desc_def)
  show ?thesis
    using p0 columns_symbol [OF p0]
    by (auto simp: statement_position_def Let_def o d dest: described_symbol split: option.split)
qed

lemma statement_position_qty:
  "pl_qty (fst (statement_position cs ac row rawSymbol qty)) = qty"
proof -
  have p0: "pl_qty (plain_position cs ac row rawSymbol qty) = qty"
    by (simp add: plain_position_def Let_def)
  have c: "pl_qty (with_columns cs row p) = pl_qty p" for p
    by (simp add: with_columns_def Let_def)
  have o: "pl_qty (with_osi p x) = pl_qty p" for p x
    by (simp add: with_osi_def)
  have d: "pl_qty (with_desc p y) = pl_qty p" for p y
    by (simp add: with_desc_def)
  show ?thesis
    by (simp add: statement_position_def Let_def p0 c o d split: option.split)
qed

lemma section_rows_usable: "p \<in> set (section_rows cs ac rows) \<Longrightarrow> usable p"
proof (induction rows arbitrary: ac)
  case Nil
  then show ?case by simp
next
  case (Cons row rest)
  then show ?case
    by (auto simp: Let_def usable_def statement_position_qty statement_position_symbol trim_has_char
        split: if_splits)
qed

lemma section_at_rows:
  "p \<in> set (section_at rows i) \<Longrightarrow> \<exists>cs ac rs. p \<in> set (section_rows cs ac rs)"
  by (auto simp: section_at_def Let_def split: if_splits)

lemma statement_positions_usable:
  "p \<in> set (parseAccountStatementPositions rows) \<Longrightarrow> usable p"
  by (auto simp: parseAccountStatementPositions_def dest!: section_at_rows dest: section_rows_usable
      split: if_splits)

lemma section_rows_kept:
  "\<exists>acs. length acs = length (filter (kept_row cs) (takeWhile (\<lambda>r. \<not> section_end r) rows)) \<and>
     section_rows cs ac rows =
       map2 (row_position cs) acs (filter (kept_row cs) (takeWhile (\<lambda>r. \<not> section_end r) rows))"
proof (induction rows arbitrary: ac)
  case Nil
  then show ?case by simp
next
  case (Cons row rest)
  show ?case
  proof (cases "section_end row")
    case True
    then show ?thesis by (auto simp: section_end_def)
  next
    case False
    then have ne: "\<not> blank_row row" "\<not> isSectionHeader row"
        "\<not> str_includes (toLowerCase (trim (cell row 1))) ''total''"
      by (simp_all add: section_end_def)
    show ?thesis
    proof (cases "kept_row cs row")
      case k: False
      from Cons [of ac] obtain acs where
        "length acs = length (filter (kept_row cs) (takeWhile (\<lambda>r. \<not> section_end r) rest))"
        "section_rows cs ac rest =
           map2 (row_position cs) acs (filter (kept_row cs) (takeWhile (\<lambda>r. \<not> section_end r) rest))"
        by blast
      moreover have "section_rows cs ac (row # rest) = section_rows cs ac rest"
        using ne k by (auto simp: kept_row_def Let_def)
      ultimately show ?thesis using False k by auto
    next
      case k: True
      let ?r = "statement_position cs ac row (trim (cell row (symbolIdx cs)))
                  (parseNumber (cell row (qtyIdx cs)))"
      from Cons [of "snd ?r"] obtain acs where a:
        "length acs = length (filter (kept_row cs) (takeWhile (\<lambda>r. \<not> section_end r) rest))"
        "section_rows cs (snd ?r) rest =
           map2 (row_position cs) acs (filter (kept_row cs) (takeWhile (\<lambda>r. \<not> section_end r) rest))"
        by blast
      have "section_rows cs ac (row # rest) = row_position cs ac row # section_rows cs (snd ?r) rest"
        using ne k by (simp add: kept_row_def Let_def row_position_def)
      with a False k show ?thesis
        by (intro exI [of _ "ac # acs"]) simp
    qed
  qed
qed

lemma section_rows_quantities:
  "map pl_qty (section_rows cs ac rows) =
     map (\<lambda>row. parseNumber (cell row (qtyIdx cs)))
       (filter (kept_row cs) (takeWhile (\<lambda>r. \<not> section_end r) rows))"
proof -
  obtain acs where a:
    "length acs = length (filter (kept_row cs) (takeWhile (\<lambda>r. \<not> section_end r) rows))"
    "section_rows cs ac rows =
       map2 (row_position cs) acs (filter (kept_row cs) (takeWhile (\<lambda>r. \<not> section_end r) rows))"
    using section_rows_kept by blast
  have "map pl_qty (map2 (row_position cs) xs ys) = map (\<lambda>row. parseNumber (cell row (qtyIdx cs))) ys"
    if "length xs = length ys" for xs ys
    using that by (induction xs ys rule: list_induct2) (simp_all add: row_position_def statement_position_qty)
  with a show ?thesis by simp
qed

lemma section_at_section:
  "section_at rows i =
     (if starts_section rows i
      then section_rows (section_columns (map normalizeHeader (rows ! (i + 1))))
             (section_asset_class (toUpperCase (trim (cell (rows ! i) 0)))) (drop (i + 2) rows)
      else [])"
  by (simp add: section_at_def starts_section_def Let_def)

lemma statement_sections:
  "rows \<noteq> [] \<Longrightarrow>
   parseAccountStatementPositions rows = concat (map (section_at rows) [0 ..< length rows - 1])"
  by (simp add: parseAccountStatementPositions_def)

lemma import_bulk:
  assumes "accountId \<noteq> []" "accountId \<noteq> ''ALL''" "parseCsvRows text \<noteq> []"
    and "\<not> isBalancesReport (parseCsvRows text)" "\<not> isPositionsReport (parseCsvRows text)"
    and "\<not> isTransactionsCsv (parseCsvRows text)"
    and "extracted = (if isAccountStatement (parseCsvRows text)
                      then parseAccountStatementPositions (parseCsvRows text)
                      else map generic_position (parseCsv text))"
  shows "calls (importCsvFile api accountId text) =
           (if filter usable extracted = [] then [] else [PostBulk (filter usable extracted) accountId])"
    and "filter usable extracted = [] \<Longrightarrow> list_all is_message (importCsvFile api accountId text)"
proof -
  show "calls (importCsvFile api accountId text) =
           (if filter usable extracted = [] then [] else [PostBulk (filter usable extracted) accountId])"
  proof (cases "isAccountStatement (parseCsvRows text)")
    case True
    with assms show ?thesis
      by (simp add: importCsvFile_def requireAccount_def Let_def split: reply.split)
  next
    case False
    with assms show ?thesis
      by (simp add: importCsvFile_def requireAccount_def Let_def split: reply.split)
  qed
  show "list_all is_message (importCsvFile api accountId text)" if "filter usable extracted = []"
  proof (cases "isAccountStatement (parseCsvRows text)")
    case True
    with assms that show ?thesis
      by (simp add: importCsvFile_def requireAccount_def Let_def)
  next
    case False
    with assms that show ?thesis
      by (simp add: importCsvFile_def requireAccount_def Let_def)
  qed
qed

subsection \<open>The sample generic file\<close>

lemma norm_hdr: "normalizeHeader ''symbol'' = ''symbol''" "normalizeHeader ''qty'' = ''qty''"
  by (simp_all add: csv_eval str_eval)

lemma norm_g: "normalized_row [(''symbol'', s), (''qty'', q)] = [(''symbol'', s), (''qty'', q)]"
  by (simp add: normalized_row_def object_keys_def is_array_index_def obj_get_def str_of_def norm_hdr
      is_digit_def decimal_digits_def)

lemma pick_g:
  "first_value [(''symbol'', s), (''qty'', q)] (aliasMap ''instrument_id'') = []"
  "first_value [(''symbol'', s), (''qty'', q)] (aliasMap ''symbol'') = s"
  "first_value [(''symbol'', s), (''qty'', q)] (aliasMap ''qty'') = q"
  "first_value [(''symbol'', s), (''qty'', q)] (aliasMap ''price'') = []"
  "first_value [(''symbol'', s), (''qty'', q)] (aliasMap ''avg_cost'') = []"
  "first_value [(''symbol'', s), (''qty'', q)] (aliasMap ''entry_date'') = []"
  "first_value [(''symbol'', s), (''qty'', q)] (aliasMap ''asset_class'') = []"
  "first_value [(''symbol'', s), (''qty'', q)] (aliasMap ''underlying'') = []"
  "first_value [(''symbol'', s), (''qty'', q)] (aliasMap ''expiry'') = []"
  "first_value [(''symbol'', s), (''qty'', q)] (aliasMap ''strike'') = []"
  "first_value [(''symbol'', s), (''qty'', q)] (aliasMap ''option_type'') = []"
  "first_value [(''symbol'', s), (''qty'', q)] (aliasMap ''multiplier'') = []"
  "first_value [(''symbol'', s), (''qty'', q)] (aliasMap ''sector'') = []"
  "first_value [(''symbol'', s), (''qty'', q)] (aliasMap ''strategy'') = []"
  "first_value [(''symbol'', s), (''qty'', q)] (aliasMap ''side'') = []"
  by (simp_all add: aliasMap_def csv_eval obj_get_def str_eval)

lemma gp_qty:
  "pl_qty (generic_position [(''symbol'', s), (''qty'', q)]) =
     (if isFinite (parseNumber q) then parseNumber q else Fin 0)"
  by (simp add: generic_position_def Let_def norm_g pick_g toUpperCase_def)

lemma gp_symbol:
  assumes "parseOsiSymbol (toUpperCase (filter (\<lambda>c. \<not> is_space c) s)) = None"
    and "parseOptionDescription s (Some []) = None"
  shows "pl_symbol (generic_position [(''symbol'', s), (''qty'', q)]) =
           toUpperCase (toUpperCase (filter (\<lambda>c. \<not> is_space c) s))"
  using assms
  by (simp add: generic_position_def Let_def norm_g pick_g toUpperCase_def s_or_def)

lemma rows_g: "parseCsvRows generic_file =
   [[''symbol'', ''qty''], [''AAPL'', ''10''], [''MSFT'', ''0''], [[], ''5''], [''TSLA'', ''abc''],
    [''NFLX'', ''1e400'']]"
  by (simp add: generic_file_def parseCsvRows_def blank_row_def str_eval)

lemma csv_g: "parseCsv generic_file =
   [[(''symbol'', ''AAPL''), (''qty'', ''10'')], [(''symbol'', ''MSFT''), (''qty'', ''0'')],
    [(''symbol'', []), (''qty'', ''5'')], [(''symbol'', ''TSLA''), (''qty'', ''abc'')],
    [(''symbol'', ''NFLX''), (''qty'', ''1e400'')]]"
  by (simp add: parseCsv_def rows_g cell_def str_eval)

lemma nums_g: "parseNumber ''10'' = Fin 10" "parseNumber ''0'' = Fin 0" "parseNumber ''abc'' = NaN"
  "parseNumber ''1e400'' = NaN" "parseNumber (CHR 0xA0 # ''3'') = Fin 3"
  "parseNumber ''150'' = Fin 150" "parseNumber ''100'' = Fin 100"
  by (simp_all add: num_eval re_eval str_eval)

lemma osi_AAPL: "parseOsiSymbol ''AAPL'' = None"
  by (simp add: parseOsiSymbol_def osi_re_def re_eval str_eval)

lemma desc_AAPL: "parseOptionDescription ''AAPL'' (Some []) = None"
  by (simp add: desc_eval re_eval str_eval)

lemma osi_empty: "parseOsiSymbol [] = None"
  by (simp add: parseOsiSymbol_def osi_re_def re_eval str_eval)

lemma desc_empty: "parseOptionDescription [] fb = None"
  by (simp add: parseOptionDescription_def str_eval)

lemma symbol_g: "pl_symbol (generic_position [(''symbol'', ''AAPL''), (''qty'', ''10'')]) = ''AAPL''"
proof -
  have "toUpperCase (filter (\<lambda>c. \<not> is_space c) ''AAPL'') = ''AAPL''"
    by (simp add: str_eval)
  then show ?thesis
    using gp_symbol [of "''AAPL''" "''10''"] osi_AAPL desc_AAPL by (simp add: str_eval)
qed

lemma usable_g:
  "usable (generic_position [(''symbol'', ''AAPL''), (''qty'', ''10'')])"
  "\<not> usable (generic_position [(''symbol'', ''MSFT''), (''qty'', ''0'')])"
  "\<not> usable (generic_position [(''symbol'', []), (''qty'', ''5'')])"
  "\<not> usable (generic_position [(''symbol'', ''TSLA''), (''qty'', ''abc'')])"
  "\<not> usable (generic_position [(''symbol'', ''NFLX''), (''qty'', ''1e400'')])"
proof -
  show "usable (generic_position [(''symbol'', ''AAPL''), (''qty'', ''10'')])"
    by (simp add: usable_def gp_qty nums_g symbol_g)
  show "\<not> usable (generic_position [(''symbol'', ''MSFT''), (''qty'', ''0'')])"
    by (simp add: usable_def gp_qty nums_g)
  show "\<not> usable (generic_position [(''symbol'', ''TSLA''), (''qty'', ''abc'')])"
    by (simp add: usable_def gp_qty nums_g)
  show "\<not> usable (generic_position [(''symbol'', ''NFLX''), (''qty'', ''1e400'')])"
    by (simp add: usable_def gp_qty nums_g)
  have "pl_symbol (generic_position [(''symbol'', []), (''qty'', ''5'')]) = []"
    using gp_symbol [of "[]" "''5''"] osi_empty desc_empty by (simp add: toUpperCase_def)
  then show "\<not> usable (generic_position [(''symbol'', []), (''qty'', ''5'')])"
    by (simp add: usable_def)
qed

lemma usable_rows_g:
  "filter usable (map generic_position (parseCsv generic_file)) =
     [generic_position [(''symbol'', ''AAPL''), (''qty'', ''10'')]]"
  by (simp add: csv_g usable_g)

lemma kind_g:
  "\<not> isBalancesReport (parseCsvRows generic_file)" "\<not> isPositionsReport (parseCsvRows generic_file)"
  "\<not> isTransactionsCsv (parseCsvRows generic_file)" "\<not> isAccountStatement (parseCsvRows generic_file)"
  by (simp_all add: rows_g detect_eval str_eval)

subsection \<open>The sample account statement\<close>

lemma rows_s: "parseCsvRows statement_file =
   [[''Account Statement''], [''Equities''], [''Symbol'', ''Qty'', ''Mark''],
    [''AAPL'', ''10'', ''150''], [''MSFT'', ''0'', ''300''], [[], ''5'', ''1''],
    [''TSLA'', ''abc'', ''2''], [''GOOG'', ''1e400'', ''3''], [''IBM'', CHR 0xA0 # ''3'', ''100'']]"
  by (simp add: statement_file_def parseCsvRows_def blank_row_def str_eval)

lemma kind_s:
  "\<not> isBalancesReport (parseCsvRows statement_file)" "\<not> isPositionsReport (parseCsvRows statement_file)"
  "\<not> isTransactionsCsv (parseCsvRows statement_file)" "isAccountStatement (parseCsvRows statement_file)"
  by (simp_all add: rows_s detect_eval str_eval)

lemma idx_e: "symbolIdx equity_columns = 0" "qtyIdx equity_columns = 1"
  by (simp_all add: equity_columns_def)

lemma desc_s:
  "parseOptionDescription ''AAPL'' (Some ''AAPL'') = None"
  "parseOptionDescription ''AAPL 10 150'' (Some ''AAPL'') = None"
  "parseOptionDescription ''IBM'' (Some ''IBM'') = None"
  "parseOptionDescription (''IBM '' @ CHR 0xA0 # ''3 100'') (Some ''IBM'') = None"
  by (simp_all add: desc_eval re_eval str_eval)

lemma osi_IBM: "parseOsiSymbol ''IBM'' = None"
  by (simp add: parseOsiSymbol_def osi_re_def re_eval str_eval)

lemma sp_AAPL:
  "statement_position equity_columns ''EQUITY'' [''AAPL'', ''10'', ''150''] ''AAPL'' (Fin 10) =
     (equity_position ''AAPL'' 10 150, ''EQUITY'')"
proof -
  have p: "plain_position equity_columns ''EQUITY'' [''AAPL'', ''10'', ''150''] ''AAPL'' (Fin 10) =
             equity_position ''AAPL'' 10 150"
    by (simp add: plain_position_def equity_columns_def equity_position_def opt_number_def cell_def
        nums_g Let_def str_eval)
  have c: "with_columns equity_columns [''AAPL'', ''10'', ''150''] q = q" for q
    by (simp add: with_columns_def equity_columns_def opt_cell_def Let_def)
  have d: "described equity_columns [''AAPL'', ''10'', ''150''] ''AAPL'' ''AAPL'' = None"
    by (simp add: described_def equity_columns_def opt_cell_def Let_def s_or_def desc_empty desc_s
        join_def trim_def is_space_def)
  have s: "pl_symbol (equity_position ''AAPL'' 10 150) = ''AAPL''"
      "pl_asset_class (equity_position ''AAPL'' 10 150) = ''EQUITY''"
    by (simp_all add: equity_position_def)
  show ?thesis
    by (simp add: statement_position_def Let_def p c s osi_AAPL d)
qed

lemma sp_IBM:
  "statement_position equity_columns ''EQUITY'' [''IBM'', CHR 0xA0 # ''3'', ''100''] ''IBM'' (Fin 3) =
     (equity_position ''IBM'' 3 100, ''EQUITY'')"
proof -
  have p: "plain_position equity_columns ''EQUITY'' [''IBM'', CHR 0xA0 # ''3'', ''100''] ''IBM'' (Fin 3) =
             equity_position ''IBM'' 3 100"
    by (simp add: plain_position_def equity_columns_def equity_position_def opt_number_def cell_def
        nums_g Let_def str_eval)
  have c: "with_columns equity_columns [''IBM'', CHR 0xA0 # ''3'', ''100''] q = q" for q
    by (simp add: with_columns_def equity_columns_def opt_cell_def Let_def)
  have d: "described equity_columns [''IBM'', CHR 0xA0 # ''3'', ''100''] ''IBM'' ''IBM'' = None"
    using desc_s(4)
    by (simp add: described_def equity_columns_def opt_cell_def Let_def s_or_def desc_empty desc_s
        join_def trim_def is_space_def)
  have s: "pl_symbol (equity_position ''IBM'' 3 100) = ''IBM''"
      "pl_asset_class (equity_position ''IBM'' 3 100) = ''EQUITY''"
    by (simp_all add: equity_position_def)
  show ?thesis
    by (simp add: statement_position_def Let_def p c s osi_IBM d)
qed

lemma section_s:
  "section_rows equity_columns ''EQUITY''
     [[''AAPL'', ''10'', ''150''], [''MSFT'', ''0'', ''300''], [[], ''5'', ''1''],
      [''TSLA'', ''abc'', ''2''], [''GOOG'', ''1e400'', ''3''], [''IBM'', CHR 0xA0 # ''3'', ''100'']] =
   [equity_position ''AAPL'' 10 150, equity_position ''IBM'' 3 100]"
  by (simp add: idx_e blank_row_def isSectionHeader_def cell_def nums_g sp_AAPL sp_IBM Let_def
      toLowerCase_def lower_char_def upper_letters_def lower_letters_def trim_def is_space_def)

lemma hdr_s:
  "normalizeHeader ''Equities'' = ''equities''" "normalizeHeader ''Symbol'' = ''symbol''"
  "normalizeHeader ''Qty'' = ''qty''" "normalizeHeader ''Mark'' = ''mark''"
  "normalizeHeader ''AAPL'' = ''aapl''" "normalizeHeader ''MSFT'' = ''msft''"
  "normalizeHeader ''TSLA'' = ''tsla''" "normalizeHeader ''GOOG'' = ''goog''"
  "normalizeHeader ''IBM'' = ''ibm''" "normalizeHeader [] = []"
  "normalizeHeader ''abc'' = ''abc''" "normalizeHeader ''1e400'' = ''1e400''"
  "normalizeHeader ''0'' = ''0''" "normalizeHeader ''1'' = ''1''" "normalizeHeader ''2'' = ''2''"
  "normalizeHeader ''3'' = ''3''" "normalizeHeader ''5'' = ''5''" "normalizeHeader ''10'' = ''10''"
  "normalizeHeader ''100'' = ''100''" "normalizeHeader ''150'' = ''150''"
  "normalizeHeader ''300'' = ''300''" "normalizeHeader (CHR 0xA0 # ''3'') = ''3''"
  by (simp_all add: csv_eval str_eval)

lemma columns_s: "section_columns [''symbol'', ''qty'', ''mark''] = equity_columns"
  by (simp add: section_columns_def equity_columns_def indexOf_def indexOf2_def)

lemma class_s: "isPositionSection ''EQUITIES''" "section_asset_class ''EQUITIES'' = ''EQUITY''"
  by (simp_all add: isPositionSection_def section_asset_class_def)

lemma name_s: "toUpperCase (trim (cell [''Equities''] 0)) = ''EQUITIES''"
  by (simp add: cell_def str_eval)

lemma nth_s:
  "parseCsvRows statement_file ! 1 = [''Equities'']"
  "parseCsvRows statement_file ! (1 + 1) = [''Symbol'', ''Qty'', ''Mark'']"
  "drop (1 + 2) (parseCsvRows statement_file) = 
     [[''AAPL'', ''10'', ''150''], [''MSFT'', ''0'', ''300''], [[], ''5'', ''1''],
      [''TSLA'', ''abc'', ''2''], [''GOOG'', ''1e400'', ''3''], [''IBM'', CHR 0xA0 # ''3'', ''100'']]"
  by (simp_all add: rows_s)

lemma section_1:
  "section_at (parseCsvRows statement_file) 1 =
     [equity_position ''AAPL'' 10 150, equity_position ''IBM'' 3 100]"
  unfolding section_at_def nth_s Let_def
  by (simp add: hdr_s columns_s name_s class_s section_s del: section_rows.simps)

lemma sections_s:
  "section_at (parseCsvRows statement_file) 0 = []"
  "section_at (parseCsvRows statement_file) 2 = []"
  "section_at (parseCsvRows statement_file) 3 = []"
  "section_at (parseCsvRows statement_file) 4 = []"
  "section_at (parseCsvRows statement_file) 5 = []"
  "section_at (parseCsvRows statement_file) 6 = []"
  "section_at (parseCsvRows statement_file) 7 = []"
  by (simp_all add: section_at_def rows_s hdr_s Let_def del: section_rows.simps)

lemma upt_s: "[0 ..< 8] = [0, 1, 2, 3, 4, 5, 6, 7]"
  by (simp add: upt_conv_Cons)

lemma positions_s:
  "parseAccountStatementPositions (parseCsvRows statement_file) =
     [equity_position ''AAPL'' 10 150, equity_position ''IBM'' 3 100]"
proof -
  have l: "length (parseCsvRows statement_file) - 1 = 8" "parseCsvRows statement_file \<noteq> []"
    by (simp_all add: rows_s)
  show ?thesis
    unfolding parseAccountStatementPositions_def l upt_s list.map sections_s section_1
    by (simp add: l)
qed

lemma usable_s:
  "usable (equity_position ''AAPL'' 10 150)" "usable (equity_position ''IBM'' 3 100)"
  by (simp_all add: usable_def equity_position_def)

subsection \<open>The order of the detectors\<close>

text \<open>
  C2, as the code has it: the detectors are applied in the order balances report,
  positions report, transactions report, account statement, generic CSV, and the first
  that matches decides. For every file with at least one row, imported with an account
  selected, the requests made are: the upload to the balances import when a scanned row
  has a balances marker; else the upload to the positions import when a scanned row has a
  positions marker; else, when the header row is a transactions header, the upload to the
  transactions import (followed by the read of the benchmark start when it succeeds),
  whether or not a row has the account statement marker; else, when a scanned row has the
  account statement marker, the bulk post of the usable positions of the statement; and
  else the bulk post of the usable rows of the file read as a generic CSV.
\<close>

theorem detection_order:
  assumes "accountId \<noteq> []" "accountId \<noteq> ''ALL''" "parseCsvRows text \<noteq> []"
  shows "calls (importCsvFile api accountId text) =
     (if isBalancesReport (parseCsvRows text) then
        [PostFile ''/admin/import-balances'' None text]
      else if isPositionsReport (parseCsvRows text) then
        [PostFile ''/admin/import-positions'' (Some accountId) text]
      else if isTransactionsCsv (parseCsvRows text) then
        PostFile ''/admin/import-transactions'' (Some accountId) text #
        (case api (PostFile ''/admin/import-transactions'' (Some accountId) text) of
           Ok data \<Rightarrow> [GetBenchmark]
         | Err detail message \<Rightarrow> [])
      else if isAccountStatement (parseCsvRows text) then
        bulk (filter usable (parseAccountStatementPositions (parseCsvRows text))) accountId
      else bulk (filter usable (map generic_position (parseCsv text))) accountId)"
proof -
  have b: "calls (case r of Ok b \<Rightarrow> (case map_of b ''bench_start'' of
                                Some v \<Rightarrow> if v \<noteq> [] then [SetBenchStart v] else []
                              | None \<Rightarrow> [])
                   | Err x y \<Rightarrow> []) = []" for r
    by (simp split: reply.split option.split)
  show ?thesis
    using assms
    by (simp add: importCsvFile_def requireAccount_def report_failed_def Let_def bulk_def
        calls_append b split: reply.split)
qed

theorem detection_order_witness:
  "isTransactionsCsv (parseCsvRows transactions_with_statement_marker) \<and>
   isAccountStatement (parseCsvRows transactions_with_statement_marker) \<and>
   calls (importCsvFile (\<lambda>_. Ok []) ''IRA'' transactions_with_statement_marker) =
     [PostFile ''/admin/import-transactions'' (Some ''IRA'') transactions_with_statement_marker,
      GetBenchmark] \<and>
   calls (importCsvFile (\<lambda>_. Ok []) ''IRA'' statement_file) =
     [PostBulk [equity_position ''AAPL'' 10 150, equity_position ''IBM'' 3 100] ''IRA''] \<and>
   calls (importCsvFile (\<lambda>_. Ok []) ''IRA'' generic_file) =
     [PostBulk [generic_position [(''symbol'', ''AAPL''), (''qty'', ''10'')]] ''IRA'']"
proof -
  have t: "isTransactionsCsv (parseCsvRows transactions_with_statement_marker)"
    by (simp add: rows_ts detect_eval str_eval)
  have s: "isAccountStatement (parseCsvRows transactions_with_statement_marker)"
    by (simp add: rows_ts detect_eval str_eval)
  have n: "\<not> isBalancesReport (parseCsvRows transactions_with_statement_marker)"
      "\<not> isPositionsReport (parseCsvRows transactions_with_statement_marker)"
    by (simp_all add: rows_ts detect_eval str_eval)
  have r: "parseCsvRows transactions_with_statement_marker \<noteq> []"
      "parseCsvRows statement_file \<noteq> []" "parseCsvRows generic_file \<noteq> []"
    by (simp_all add: rows_ts rows_s rows_g)
  have a: "''IRA'' \<noteq> []" "''IRA'' \<noteq> ''ALL''" by simp_all
  have 1: "calls (importCsvFile (\<lambda>_. Ok []) ''IRA'' transactions_with_statement_marker) =
     [PostFile ''/admin/import-transactions'' (Some ''IRA'') transactions_with_statement_marker,
      GetBenchmark]"
    using detection_order [OF a r(1), of "\<lambda>_. Ok []"] t n by simp
  have 2: "calls (importCsvFile (\<lambda>_. Ok []) ''IRA'' statement_file) =
     [PostBulk [equity_position ''AAPL'' 10 150, equity_position ''IBM'' 3 100] ''IRA'']"
    using detection_order [OF a r(2), of "\<lambda>_. Ok []"]
    by (simp add: kind_s positions_s usable_s bulk_def)
  have 3: "calls (importCsvFile (\<lambda>_. Ok []) ''IRA'' generic_file) =
     [PostBulk [generic_position [(''symbol'', ''AAPL''), (''qty'', ''10'')]] ''IRA'']"
    using detection_order [OF a r(3), of "\<lambda>_. Ok []"]
    by (simp add: kind_g usable_rows_g bulk_def)
  show ?thesis
    using t s 1 2 3 by simp
qed

text \<open>
  A file with a transactions header and a row that starts with \<open>Positions for\<close> is sent
  to the positions import, not to the transactions import.
\<close>

theorem transactions_header_with_positions_marker:
  "isTransactionsCsv (parseCsvRows transactions_with_positions_marker) \<and>
   calls (importCsvFile (\<lambda>_. Ok []) ''IRA'' transactions_with_positions_marker) =
     [PostFile ''/admin/import-positions'' (Some ''IRA'') transactions_with_positions_marker]"
  by (simp add: importCsvFile_def rows_tp detect_eval requireAccount_def str_eval)

text \<open>
  C9: with the account \<open>ALL\<close>, an import of a file that is not a balances report, and the
  NAV history paste, only set messages (an error message among them): no request is made
  and nothing is refreshed. A balances report is posted all the same.
\<close>

theorem ambiguous_scope_rejected:
  assumes "accountId = ''ALL''"
  shows "(\<not> isBalancesReport (parseCsvRows text) \<longrightarrow>
            list_all is_message (importCsvFile api accountId text) \<and>
            (\<exists>msg. msg \<noteq> [] \<and> SetCsvError msg \<in> set (importCsvFile api accountId text))) \<and>
         list_all is_message (importNavText api accountId navPasteText) \<and>
         (\<exists>msg. msg \<noteq> [] \<and> SetNavPasteError msg \<in> set (importNavText api accountId navPasteText)) \<and>
         (parseCsvRows text \<noteq> [] \<and> isBalancesReport (parseCsvRows text) \<longrightarrow>
            take 1 (calls (importCsvFile api accountId text)) =
              [PostFile ''/admin/import-balances'' None text])"
  using assms
  by (auto simp: importCsvFile_def importNavText_def requireAccount_def Let_def split: reply.split)

theorem ambiguous_scope_rejected_witness:
  "list_all is_message (importCsvFile (\<lambda>_. Ok []) ''ALL'' transactions_with_positions_marker) \<and>
   list_all is_message (importNavText (\<lambda>_. Ok []) ''ALL'' ''2026-01-02, 1000'') \<and>
   take 1 (calls (importCsvFile (\<lambda>_. Ok []) ''ALL'' balances_file)) =
     [PostFile ''/admin/import-balances'' None balances_file]"
proof -
  have n: "\<not> isBalancesReport (parseCsvRows transactions_with_positions_marker)"
    by (simp add: rows_tp detect_eval str_eval)
  have b: "parseCsvRows balances_file \<noteq> [] \<and> isBalancesReport (parseCsvRows balances_file)"
    by (simp add: rows_b detect_eval str_eval)
  show ?thesis
    using n b
      ambiguous_scope_rejected [of "''ALL''" transactions_with_positions_marker "\<lambda>_. Ok []" "''2026-01-02, 1000''"]
      ambiguous_scope_rejected [of "''ALL''" balances_file "\<lambda>_. Ok []" "''2026-01-02, 1000''"]
    by simp
qed

subsection \<open>Rows that are dropped\<close>

text \<open>
  C6: for an account statement and for a generic CSV file, imported with an account
  selected, the only request is the post of the extracted rows that have a symbol and a
  finite quantity other than zero, all of them and no other row; no request is made and
  only messages are set when no such row is left. In an account statement every position
  extracted has a symbol and a finite quantity other than zero already; the positions are
  those of the sections, one after the other; and a section yields one position for each
  row, up to the row that ends the section, that has a symbol and a finite quantity other
  than zero, in their order: a row without a symbol or with a quantity that is not a
  finite number or is zero is skipped, and the rows after it are still read.
\<close>

theorem bad_rows_are_dropped:
  assumes "accountId \<noteq> []" "accountId \<noteq> ''ALL''" "parseCsvRows text \<noteq> []"
    and "\<not> isBalancesReport (parseCsvRows text)" "\<not> isPositionsReport (parseCsvRows text)"
    and "\<not> isTransactionsCsv (parseCsvRows text)"
    and "extracted = (if isAccountStatement (parseCsvRows text)
                      then parseAccountStatementPositions (parseCsvRows text)
                      else map generic_position (parseCsv text))"
  shows "calls (importCsvFile api accountId text) =
           (if filter usable extracted = [] then []
            else [PostBulk (filter usable extracted) accountId]) \<and>
         (filter usable extracted = [] \<longrightarrow> list_all is_message (importCsvFile api accountId text)) \<and>
         (\<forall>p \<in> set (filter usable extracted).
            pl_symbol p \<noteq> [] \<and> isFinite (pl_qty p) \<and> pl_qty p \<noteq> Fin 0) \<and>
         (\<forall>p \<in> set extracted. usable p \<longrightarrow> p \<in> set (filter usable extracted)) \<and>
         (\<forall>p \<in> set (parseAccountStatementPositions (parseCsvRows text)).
            pl_symbol p \<noteq> [] \<and> isFinite (pl_qty p) \<and> pl_qty p \<noteq> Fin 0) \<and>
         parseAccountStatementPositions (parseCsvRows text) =
           concat (map (section_at (parseCsvRows text)) [0 ..< length (parseCsvRows text) - 1]) \<and>
         (\<forall>i. section_at (parseCsvRows text) i =
            (if starts_section (parseCsvRows text) i
             then section_rows (section_columns (map normalizeHeader (parseCsvRows text ! (i + 1))))
                    (section_asset_class (toUpperCase (trim (cell (parseCsvRows text ! i) 0))))
                    (drop (i + 2) (parseCsvRows text))
             else [])) \<and>
         (\<forall>cs ac rows. \<exists>acs.
            length acs = length (filter (kept_row cs) (takeWhile (\<lambda>r. \<not> section_end r) rows)) \<and>
            section_rows cs ac rows =
              map2 (row_position cs) acs
                (filter (kept_row cs) (takeWhile (\<lambda>r. \<not> section_end r) rows))) \<and>
         (\<forall>cs ac rows.
            map pl_qty (section_rows cs ac rows) =
              map (\<lambda>row. parseNumber (cell row (qtyIdx cs)))
                (filter (kept_row cs) (takeWhile (\<lambda>r. \<not> section_end r) rows)))"
proof -
  have "\<forall>p \<in> set (filter usable extracted).
          pl_symbol p \<noteq> [] \<and> isFinite (pl_qty p) \<and> pl_qty p \<noteq> Fin 0"
    by (simp add: usable_def)
  moreover have "\<forall>p \<in> set extracted. usable p \<longrightarrow> p \<in> set (filter usable extracted)"
    by simp
  moreover have "\<forall>p \<in> set (parseAccountStatementPositions (parseCsvRows text)).
          pl_symbol p \<noteq> [] \<and> isFinite (pl_qty p) \<and> pl_qty p \<noteq> Fin 0"
    using statement_positions_usable by (auto simp: usable_def)
  moreover note statement_sections [OF assms(3)] section_at_section section_rows_kept
    section_rows_quantities import_bulk(1) [OF assms]
  moreover have "filter usable extracted = [] \<longrightarrow>
      list_all is_message (importCsvFile api accountId text)"
    using import_bulk(2) [OF assms] by simp
  ultimately show ?thesis
    by (intro conjI allI) (assumption | rule)+
qed

theorem bad_rows_are_dropped_witness:
  "length (parseCsv generic_file) = 5 \<and>
   calls (importCsvFile (\<lambda>_. Ok []) ''IRA'' generic_file) =
     [PostBulk [generic_position [(''symbol'', ''AAPL''), (''qty'', ''10'')]] ''IRA''] \<and>
   pl_symbol (generic_position [(''symbol'', ''AAPL''), (''qty'', ''10'')]) = ''AAPL'' \<and>
   pl_qty (generic_position [(''symbol'', ''AAPL''), (''qty'', ''10'')]) = Fin 10 \<and>
   length (parseCsvRows statement_file) = 9 \<and>
   calls (importCsvFile (\<lambda>_. Ok []) ''IRA'' statement_file) =
     [PostBulk [equity_position ''AAPL'' 10 150, equity_position ''IBM'' 3 100] ''IRA'']"
proof -
  have a: "''IRA'' \<noteq> []" "''IRA'' \<noteq> ''ALL''" by simp_all
  have r: "parseCsvRows generic_file \<noteq> []" by (simp add: rows_g)
  have e: "filter usable
             (if isAccountStatement (parseCsvRows generic_file)
              then parseAccountStatementPositions (parseCsvRows generic_file)
              else map generic_position (parseCsv generic_file)) =
           [generic_position [(''symbol'', ''AAPL''), (''qty'', ''10'')]]"
    by (simp add: kind_g usable_rows_g)
  from bad_rows_are_dropped [OF a r kind_g(1,2,3) refl, of "\<lambda>_. Ok []"]
  have g: "calls (importCsvFile (\<lambda>_. Ok []) ''IRA'' generic_file) =
          [PostBulk [generic_position [(''symbol'', ''AAPL''), (''qty'', ''10'')]] ''IRA'']"
    unfolding e by simp
  have rs: "parseCsvRows statement_file \<noteq> []" by (simp add: rows_s)
  have es: "filter usable
             (if isAccountStatement (parseCsvRows statement_file)
              then parseAccountStatementPositions (parseCsvRows statement_file)
              else map generic_position (parseCsv statement_file)) =
           [equity_position ''AAPL'' 10 150, equity_position ''IBM'' 3 100]"
    by (simp add: kind_s positions_s usable_s)
  from bad_rows_are_dropped [OF a rs kind_s(1,2,3) refl, of "\<lambda>_. Ok []"]
  have s: "calls (importCsvFile (\<lambda>_. Ok []) ''IRA'' statement_file) =
          [PostBulk [equity_position ''AAPL'' 10 150, equity_position ''IBM'' 3 100] ''IRA'']"
    unfolding es by simp
  show ?thesis
    using g s by (simp add: csv_g rows_s symbol_g gp_qty nums_g)
qed

end
